theory Spec2Isabelle
  imports Complex_Main
begin

section \<open>JavaScript strings\<close>

text \<open>
  A JavaScript string is a sequence of UTF-16 code units. The model writes it as a
  \<^typ>\<open>string\<close> and reads each \<^typ>\<open>char\<close> as one code unit in the range 0..255,
  which covers every literal of the sources. The functions below are the methods of
  \<^verbatim>\<open>String.prototype\<close> that the sources call, with the argument shapes they are
  called with.
\<close>

text \<open>
  The code units that \<^verbatim>\<open>trim()\<close> strips (ECMAScript WhiteSpace and LineTerminator)
  among 0..255: TAB, LF, VT, FF, CR, SPACE and NBSP.
\<close>

definition isWhiteSpace :: "char \<Rightarrow> bool" where
  "isWhiteSpace c =
     (c = CHR 0x09 \<or> c = CHR 0x0A \<or> c = CHR 0x0B \<or> c = CHR 0x0C \<or> c = CHR 0x0D
      \<or> c = CHR 0x20 \<or> c = CHR 0xA0)"

text \<open>\<^verbatim>\<open>s.trim()\<close>\<close>

definition String_trim :: "string \<Rightarrow> string" where
  "String_trim s = rev (dropWhile isWhiteSpace (rev (dropWhile isWhiteSpace s)))"

text \<open>\<^verbatim>\<open>s.startsWith(p)\<close>: the test behind every search below.\<close>

definition String_startsWith :: "string \<Rightarrow> string \<Rightarrow> bool" where
  "String_startsWith s p = (take (length p) s = p)"

text \<open>\<^verbatim>\<open>s.includes(sub)\<close>: \<open>sub\<close> occurs at some position of \<open>s\<close>.\<close>

fun String_includes :: "string \<Rightarrow> string \<Rightarrow> bool" where
  "String_includes [] sub = (sub = [])"
| "String_includes (c # cs) sub =
     (String_startsWith (c # cs) sub \<or> String_includes cs sub)"

text \<open>
  \<^verbatim>\<open>s.replace(pat, rep)\<close> with a string pattern: the first occurrence of \<open>pat\<close> is
  replaced, the rest is kept. (The replacement is taken literally; the sources'
  replacement texts hold no \<^verbatim>\<open>$\<close>.)
\<close>

fun String_replace :: "string \<Rightarrow> string \<Rightarrow> string \<Rightarrow> string" where
  "String_replace [] pat rep = (if pat = [] then rep else [])"
| "String_replace (c # cs) pat rep =
     (if String_startsWith (c # cs) pat then rep @ drop (length pat) (c # cs)
      else c # String_replace cs pat rep)"

section \<open>URL normalisation (browser screen)\<close>

text \<open>
  \<^verbatim>\<open>normalizeURL\<close> of the browser screen; both versions of the screen in the sources
  hold the same text:
  \<^verbatim>\<open>
    let normalized = urlString.trim();
    if (!normalized.includes('://')) { normalized = `https://${normalized}`; }
    if (!normalized.includes('.') && !normalized.includes('localhost')) {
        normalized = normalized.replace('https://', 'https://www.');
        normalized += '.com';
    }
    return normalized;
  \<close>
\<close>

definition normalizeURL :: "string \<Rightarrow> string" where
  "normalizeURL urlString =
     (let normalized = String_trim urlString;
          normalized = (if \<not> String_includes normalized ''://''
                        then ''https://'' @ normalized else normalized)
      in if \<not> String_includes normalized ''.'' \<and> \<not> String_includes normalized ''localhost''
         then String_replace normalized ''https://'' ''https://www.'' @ ''.com''
         else normalized)"

text \<open>
  The shape every result of \<^verbatim>\<open>normalizeURL\<close> has: no white space at either end,
  a scheme separator, and a dot or the word \<^verbatim>\<open>localhost\<close>.
\<close>

definition normalized_form :: "string \<Rightarrow> bool" where
  "normalized_form r \<longleftrightarrow>
     r \<noteq> [] \<and> \<not> isWhiteSpace (hd r) \<and> \<not> isWhiteSpace (last r) \<and>
     String_includes r ''://'' \<and> (String_includes r ''.'' \<or> String_includes r ''localhost'')"

section \<open>Errors, the runtime and JSON values\<close>

text \<open>
  A thrown value is an error object with its message: \<^verbatim>\<open>new Error(m)\<close> of the sources,
  or a \<^verbatim>\<open>TypeError\<close> or \<^verbatim>\<open>SyntaxError\<close> that the engine raises. A function that can
  throw returns \<open>js_error + 'a\<close>, with \<open>Inl\<close> for the throw; a rejected promise is the
  same \<open>Inl\<close>, a resolved one \<open>Inr\<close>.
\<close>

datatype js_error = Error string | TypeError string | SyntaxError string

fun message :: "js_error \<Rightarrow> string" where
  "message (Error m) = m"
| "message (TypeError m) = m"
| "message (SyntaxError m) = m"

text \<open>
  The value of \<^verbatim>\<open>JSON.parse\<close>. A number is held as the text that \<^verbatim>\<open>String(n)\<close>
  gives for it (the only use the sources make of a parsed number); an object as its own
  properties, one entry per key, in the order \<^verbatim>\<open>Object.entries\<close> lists them.
\<close>

datatype json =
    JNull
  | JBool bool
  | JNumber string
  | JString string
  | JArray "json list"
  | JObject "(string \<times> json) list"

text \<open>The engine's \<^verbatim>\<open>TypeError\<close>s that the modelled code can raise.\<close>

datatype type_error =
    ReadPropertyOfNull string
  | ReadPropertyOfUndefined string
  | ConvertNullToObject
  | NoPrimitiveValue

text \<open>
  What the sources take from the JavaScript engine and do not define: \<^verbatim>\<open>JSON.parse\<close>
  (\<open>Inl m\<close>: it throws a \<^verbatim>\<open>SyntaxError\<close> with message \<open>m\<close>) and the wording of the
  engine's \<^verbatim>\<open>TypeError\<close> messages.
\<close>

record runtime =
  JSON_parse :: "string \<Rightarrow> string + json"
  typeErrorMessage :: "type_error \<Rightarrow> string"

definition throwTypeError :: "runtime \<Rightarrow> type_error \<Rightarrow> js_error" where
  "throwTypeError rt k = TypeError (typeErrorMessage rt k)"

text \<open>
  Reading the property \<open>p\<close> of a value, for the two names the sources read from a parsed
  value (\<^verbatim>\<open>name\<close>, \<^verbatim>\<open>parameters\<close>), which no prototype defines: an object gives its
  own property or \<^verbatim>\<open>undefined\<close> (\<open>None\<close>), \<^verbatim>\<open>null\<close> throws, every other value
  gives \<^verbatim>\<open>undefined\<close>.
\<close>

fun getProperty :: "runtime \<Rightarrow> json \<Rightarrow> string \<Rightarrow> js_error + json option" where
  "getProperty rt JNull p = Inl (throwTypeError rt (ReadPropertyOfNull p))"
| "getProperty rt (JObject kvs) p = Inr (map_of kvs p)"
| "getProperty rt _ p = Inr None"

text \<open>Truthiness and \<^verbatim>\<open>typeof\<close> of a value that may be \<^verbatim>\<open>undefined\<close> (\<open>None\<close>).\<close>

fun truthy :: "json option \<Rightarrow> bool" where
  "truthy None = False"
| "truthy (Some JNull) = False"
| "truthy (Some (JBool b)) = b"
| "truthy (Some (JNumber t)) = (t \<noteq> ''0'' \<and> t \<noteq> ''NaN'')"
| "truthy (Some (JString s)) = (s \<noteq> [])"
| "truthy (Some (JArray xs)) = True"
| "truthy (Some (JObject kvs)) = True"

fun typeof :: "json option \<Rightarrow> string" where
  "typeof None = ''undefined''"
| "typeof (Some JNull) = ''object''"
| "typeof (Some (JBool b)) = ''boolean''"
| "typeof (Some (JNumber t)) = ''number''"
| "typeof (Some (JString s)) = ''string''"
| "typeof (Some (JArray xs)) = ''object''"
| "typeof (Some (JObject kvs)) = ''object''"

text \<open>
  \<^verbatim>\<open>String(v)\<close>. An array is joined with commas, \<^verbatim>\<open>null\<close> elements as the empty
  text; an object is \<^verbatim>\<open>[object Object]\<close>, unless it has an own property
  \<^verbatim>\<open>toString\<close>: that property of a parsed object is never callable, no method is left
  that returns a primitive, and the conversion throws a \<^verbatim>\<open>TypeError\<close>.
\<close>

fun js_String :: "runtime \<Rightarrow> json \<Rightarrow> js_error + string"
  and joinElements :: "runtime \<Rightarrow> json list \<Rightarrow> js_error + string"
  where
    "js_String rt JNull = Inr ''null''"
  | "js_String rt (JBool b) = Inr (if b then ''true'' else ''false'')"
  | "js_String rt (JNumber t) = Inr t"
  | "js_String rt (JString s) = Inr s"
  | "js_String rt (JArray xs) = joinElements rt xs"
  | "js_String rt (JObject kvs) =
      (if ''toString'' \<in> fst ` set kvs then Inl (throwTypeError rt NoPrimitiveValue)
       else Inr ''[object Object]'')"
  | "joinElements rt [] = Inr []"
  | "joinElements rt (x # xs) =
      (case (if x = JNull then Inr [] else js_String rt x) of
         Inl e \<Rightarrow> Inl e
       | Inr s \<Rightarrow>
           if xs = [] then Inr s
           else (case joinElements rt xs of Inl e \<Rightarrow> Inl e | Inr r \<Rightarrow> Inr (s @ '','' @ r)))"

text \<open>The decimal text of an array index.\<close>

fun showNat :: "nat \<Rightarrow> string" where
  "showNat n =
     (if n < 10 then [''0123456789'' ! n]
      else showNat (n div 10) @ [''0123456789'' ! (n mod 10)])"

text \<open>
  \<^verbatim>\<open>Object.entries(v)\<close>: the own enumerable properties of an object, the indexed
  elements of an array or of a string, nothing for a number or a boolean; \<open>None\<close> is the
  \<^verbatim>\<open>TypeError\<close> on \<^verbatim>\<open>null\<close> (and, through \<open>Option.bind\<close>, on \<^verbatim>\<open>undefined\<close>).
\<close>

fun Object_entries :: "json \<Rightarrow> (string \<times> json) list option" where
  "Object_entries JNull = None"
| "Object_entries (JObject kvs) = Some kvs"
| "Object_entries (JArray xs) = Some (zip (map showNat [0..<length xs]) xs)"
| "Object_entries (JString s) =
     Some (zip (map showNat [0..<length s]) (map (\<lambda>c. JString [c]) s))"
| "Object_entries _ = Some []"

text \<open>
  \<^verbatim>\<open>parameters[key] = text\<close> on an object created by \<^verbatim>\<open>{}\<close>: the property is set,
  except for the key \<^verbatim>\<open>__proto__\<close>, which reaches the setter of
  \<^verbatim>\<open>Object.prototype\<close>; that setter ignores a string and no property is created.
\<close>

definition Object_set :: "(string \<rightharpoonup> string) \<Rightarrow> string \<Rightarrow> string \<Rightarrow> (string \<rightharpoonup> string)" where
  "Object_set obj key text = (if key = ''__proto__'' then obj else obj(key \<mapsto> text))"

section \<open>Function calls\<close>

text \<open>
  \<^verbatim>\<open>interface FunctionCall { name: string; parameters: Record<string, string>; }\<close>.
  The interface is not checked at run time: the executor takes \<^verbatim>\<open>any\<close> and the remote
  path returns \<^verbatim>\<open>response.data\<close> as it came, so \<open>parameters\<close> is \<open>None\<close> when the
  property is absent (\<^verbatim>\<open>undefined\<close>).
\<close>

record function_call =
  name :: string
  parameters :: "(string \<rightharpoonup> string) option"

section \<open>The command executor (browser screen)\<close>

text \<open>
  \<^verbatim>\<open>encodeURIComponent\<close> on code units 0..255: the unreserved marks, letters and
  digits stay, every other unit becomes the \<^verbatim>\<open>%XX\<close> escapes of its UTF-8 bytes (one
  byte below 128, two bytes from 128 on). There is no surrogate in this range, so the
  function does not throw.
\<close>

definition uriUnreserved :: "char \<Rightarrow> bool" where
  "uriUnreserved c \<longleftrightarrow>
     c \<in> set (''ABCDEFGHIJKLMNOPQRSTUVWXYZabcdefghijklmnopqrstuvwxyz0123456789'' @
              ''-_.!~*()'' @ [CHR 0x27])"

definition percentByte :: "nat \<Rightarrow> string" where
  "percentByte b = [CHR ''%'', ''0123456789ABCDEF'' ! (b div 16), ''0123456789ABCDEF'' ! (b mod 16)]"

definition encodeUnit :: "char \<Rightarrow> string" where
  "encodeUnit c =
     (let u = (of_char c :: nat)
      in if uriUnreserved c then [c]
         else if u < 128 then percentByte u
         else percentByte (192 + u div 64) @ percentByte (128 + u mod 64))"

definition encodeURIComponent :: "string \<Rightarrow> string" where
  "encodeURIComponent s = concat (map encodeUnit s)"

text \<open>
  The state of the screen that the executor touches: the React state variables
  \<^verbatim>\<open>url\<close>, \<^verbatim>\<open>currentUrl\<close>, \<^verbatim>\<open>transcript\<close>, \<^verbatim>\<open>status\<close>, \<^verbatim>\<open>showFeedback\<close>; the target
  of the last opacity animation started; the delay of the pending hide timer (\<open>None\<close>: no
  timer); and the web view behind \<^verbatim>\<open>webViewRef\<close> with the calls it has received
  (\<open>None\<close>: the ref is \<^verbatim>\<open>null\<close>).
\<close>

datatype webview_call = GoBack | GoForward | Reload

record browser_state =
  url :: string
  currentUrl :: string
  transcript :: string
  status :: string
  showFeedback :: bool
  feedbackOpacity :: nat
  hideTimer :: "nat option"
  webView :: "webview_call list option"

text \<open>
  \<^verbatim>\<open>showFeedbackPanel(transcriptText, statusText, isError = false)\<close> of
  \<^verbatim>\<open>browser.tsx\<close>: it sets the status, shows the panel and animates the opacity to 1.
  Neither version reads \<^verbatim>\<open>isError\<close>.
\<close>

definition showFeedbackPanel :: "string \<Rightarrow> string \<Rightarrow> bool \<Rightarrow> browser_state \<Rightarrow> browser_state" where
  "showFeedbackPanel transcriptText statusText isError st =
     st\<lparr>status := statusText, showFeedback := True, feedbackOpacity := 1\<rparr>"

text \<open>
  The earlier version of the screen (the second copy in the sources) also stores the
  transcript: \<^verbatim>\<open>setTranscript(transcriptText)\<close> comes first.
\<close>

definition showFeedbackPanel_v1 :: "string \<Rightarrow> string \<Rightarrow> bool \<Rightarrow> browser_state \<Rightarrow> browser_state" where
  "showFeedbackPanel_v1 transcriptText statusText isError st =
     st\<lparr>transcript := transcriptText, status := statusText, showFeedback := True,
        feedbackOpacity := 1\<rparr>"

text \<open>
  \<^verbatim>\<open>scheduleFeedbackHide(delay = 3000)\<close>: a pending timer is cleared and a new one is
  set. (What the timer does when it fires is not part of the executor.)
\<close>

definition scheduleFeedbackHide :: "nat \<Rightarrow> browser_state \<Rightarrow> browser_state" where
  "scheduleFeedbackHide delay st = st\<lparr>hideTimer := Some delay\<rparr>"

text \<open>\<^verbatim>\<open>loadURL\<close>: \<^verbatim>\<open>setUrl(urlString); setCurrentUrl(urlString);\<close>\<close>

definition loadURL :: "string \<Rightarrow> browser_state \<Rightarrow> browser_state" where
  "loadURL urlString st = st\<lparr>url := urlString, currentUrl := urlString\<rparr>"

text \<open>\<^verbatim>\<open>webViewRef.current?.goBack()\<close> and the like: nothing happens on a null ref.\<close>

definition webViewCall :: "webview_call \<Rightarrow> browser_state \<Rightarrow> browser_state" where
  "webViewCall c st = st\<lparr>webView := map_option (\<lambda>calls. calls @ [c]) (webView st)\<rparr>"

text \<open>
  Reading \<^verbatim>\<open>functionCall.parameters.p\<close>: a \<^verbatim>\<open>TypeError\<close> when \<^verbatim>\<open>parameters\<close> is
  \<^verbatim>\<open>undefined\<close>, else the property or \<^verbatim>\<open>undefined\<close> (\<open>None\<close>).
\<close>

definition readParameter :: "runtime \<Rightarrow> function_call \<Rightarrow> string \<Rightarrow> js_error + string option" where
  "readParameter rt functionCall p =
     (case parameters functionCall of
        None \<Rightarrow> Inl (throwTypeError rt (ReadPropertyOfUndefined p))
      | Some ps \<Rightarrow> Inr (ps p))"

text \<open>
  \<^verbatim>\<open>executeFunction(functionCall, originalCommand)\<close>, the \<^verbatim>\<open>switch\<close> on the name and the
  \<^verbatim>\<open>scheduleFeedbackHide()\<close> after it; a throw leaves the function before the timer is
  set. \<^verbatim>\<open>if (functionCall.parameters.url)\<close> tests the value's truthiness: \<^verbatim>\<open>undefined\<close>
  and the empty text are both falsy. The two versions of the screen differ only in the
  feedback panel, which is the first argument here.
\<close>

definition executeFunction_with ::
  "(string \<Rightarrow> string \<Rightarrow> bool \<Rightarrow> browser_state \<Rightarrow> browser_state) \<Rightarrow>
   runtime \<Rightarrow> function_call \<Rightarrow> string \<Rightarrow> browser_state \<Rightarrow> js_error + browser_state" where
  "executeFunction_with panel rt functionCall originalCommand st =
     (let switched =
        (if name functionCall = ''open_browser'' then
           (case readParameter rt functionCall ''url'' of
              Inl e \<Rightarrow> Inl e
            | Inr (Some u) \<Rightarrow>
                if u \<noteq> [] then
                  (let normalizedUrl = normalizeURL u
                   in Inr (loadURL normalizedUrl
                        (panel originalCommand (''Opening '' @ normalizedUrl @ ''...'') False st)))
                else Inr (panel originalCommand ''No URL provided'' True st)
            | Inr None \<Rightarrow> Inr (panel originalCommand ''No URL provided'' True st))
         else if name functionCall = ''search_web'' then
           (case readParameter rt functionCall ''query'' of
              Inl e \<Rightarrow> Inl e
            | Inr (Some q) \<Rightarrow>
                if q \<noteq> [] then
                  (let query = encodeURIComponent q;
                       searchUrl = ''https://www.google.com/search?q='' @ query
                   in Inr (loadURL searchUrl
                        (panel originalCommand (''Searching for '' @ [CHR 0x22] @ q @ [CHR 0x22] @ ''...'')
                           False st)))
                else Inr (panel originalCommand ''No search query provided'' True st)
            | Inr None \<Rightarrow> Inr (panel originalCommand ''No search query provided'' True st))
         else if name functionCall = ''go_back'' then
           Inr (webViewCall GoBack (panel originalCommand ''Going back...'' False st))
         else if name functionCall = ''go_forward'' then
           Inr (webViewCall GoForward (panel originalCommand ''Going forward...'' False st))
         else if name functionCall = ''refresh_page'' then
           Inr (webViewCall Reload (panel originalCommand ''Refreshing page...'' False st))
         else Inr (panel originalCommand (''Unknown command: '' @ name functionCall) True st))
      in case switched of
           Inl e \<Rightarrow> Inl e
         | Inr st' \<Rightarrow> Inr (scheduleFeedbackHide 3000 st'))"

definition executeFunction ::
  "runtime \<Rightarrow> function_call \<Rightarrow> string \<Rightarrow> browser_state \<Rightarrow> js_error + browser_state" where
  "executeFunction = executeFunction_with showFeedbackPanel"

definition executeFunction_v1 ::
  "runtime \<Rightarrow> function_call \<Rightarrow> string \<Rightarrow> browser_state \<Rightarrow> js_error + browser_state" where
  "executeFunction_v1 = executeFunction_with showFeedbackPanel_v1"

section \<open>The on-device engine\<close>

subsection \<open>More string methods\<close>

text \<open>
  \<^verbatim>\<open>s.replace(/pat/g, rep)\<close> for a pattern that is a literal, non-empty text (the
  sources' \<^verbatim>\<open>/<end_of_turn>/g\<close>): every match is replaced, scanning from the left and
  going on after each match.
\<close>

fun String_replaceAll :: "string \<Rightarrow> string \<Rightarrow> string \<Rightarrow> string" where
  "String_replaceAll [] pat rep = []"
| "String_replaceAll (c # cs) pat rep =
     (if pat \<noteq> [] \<and> String_startsWith (c # cs) pat
      then rep @ String_replaceAll (drop (length pat - 1) cs) pat rep
      else c # String_replaceAll cs pat rep)"

text \<open>\<^verbatim>\<open>s.indexOf(c)\<close> and \<^verbatim>\<open>s.lastIndexOf(c)\<close> for a one-character text: -1 when absent.\<close>

definition String_indexOf :: "string \<Rightarrow> char \<Rightarrow> int" where
  "String_indexOf s c =
     (if c \<in> set s then int (length (takeWhile (\<lambda>x. x \<noteq> c) s)) else - 1)"

definition String_lastIndexOf :: "string \<Rightarrow> char \<Rightarrow> int" where
  "String_lastIndexOf s c =
     (if c \<in> set s
      then int (length s) - 1 - int (length (takeWhile (\<lambda>x. x \<noteq> c) (rev s)))
      else - 1)"

text \<open>
  \<^verbatim>\<open>s.substring(indexStart, indexEnd)\<close>: both indices are clamped to the text, and
  swapped when the first is the greater.
\<close>

definition String_substring :: "string \<Rightarrow> int \<Rightarrow> int \<Rightarrow> string" where
  "String_substring s indexStart indexEnd =
     (let len = int (length s);
          a = max 0 (min indexStart len);
          b = max 0 (min indexEnd len);
          from = min a b;
          to = max a b
      in take (nat (to - from)) (drop (nat from) s))"

subsection \<open>Parsing the model's response\<close>

text \<open>
  The loop of \<^verbatim>\<open>parseResponse\<close>:
  \<^verbatim>\<open>for (const [key, value] of Object.entries(parsed.parameters)) parameters[key] = String(value);\<close>
\<close>

fun convertEntries ::
  "runtime \<Rightarrow> (string \<times> json) list \<Rightarrow> (string \<rightharpoonup> string) \<Rightarrow> js_error + (string \<rightharpoonup> string)" where
  "convertEntries rt [] ps = Inr ps"
| "convertEntries rt ((key, v) # es) ps =
     (case js_String rt v of
        Inl e \<Rightarrow> Inl e
      | Inr t \<Rightarrow> convertEntries rt es (Object_set ps key t))"

text \<open>
  The body of the \<^verbatim>\<open>try\<close> block of \<^verbatim>\<open>parseResponse\<close>, on the text cut out of the
  response:
  \<^verbatim>\<open>
    const parsed = JSON.parse(cleaned);
    if (!parsed.name || typeof parsed.name !== 'string') {
        throw new Error('Invalid function call: missing or invalid "name" field');
    }
    const parameters: Record<string, string> = {};
    if (parsed.parameters && typeof parsed.parameters === 'object') {
        for (const [key, value] of Object.entries(parsed.parameters)) {
            parameters[key] = String(value);
        }
    }
    return { name: parsed.name, parameters };
  \<close>
\<close>

definition parseResponse_try :: "runtime \<Rightarrow> string \<Rightarrow> js_error + function_call" where
  "parseResponse_try rt cleaned =
     (case JSON_parse rt cleaned of
        Inl m \<Rightarrow> Inl (SyntaxError m)
      | Inr parsed \<Rightarrow>
          (case getProperty rt parsed ''name'' of
             Inl e \<Rightarrow> Inl e
           | Inr parsed_name \<Rightarrow>
               if \<not> truthy parsed_name \<or> typeof parsed_name \<noteq> ''string''
               then Inl (Error (''Invalid function call: missing or invalid '' @
                                [CHR 0x22] @ ''name'' @ [CHR 0x22] @ '' field''))
               else
                 (case getProperty rt parsed ''parameters'' of
                    Inl e \<Rightarrow> Inl e
                  | Inr parsed_parameters \<Rightarrow>
                      (case (if truthy parsed_parameters \<and> typeof parsed_parameters = ''object''
                             then (case Option.bind parsed_parameters Object_entries of
                                     None \<Rightarrow> Inl (throwTypeError rt ConvertNullToObject)
                                   | Some es \<Rightarrow> convertEntries rt es Map.empty)
                             else Inr Map.empty) of
                         Inl e \<Rightarrow> Inl e
                       | Inr ps \<Rightarrow>
                           Inr \<lparr>name = (case parsed_name of Some (JString n) \<Rightarrow> n | _ \<Rightarrow> []),
                                parameters = Some ps\<rparr>))))"

text \<open>
  \<^verbatim>\<open>parseResponse(response)\<close>:
  \<^verbatim>\<open>
    let cleaned = response.replace(/<end_of_turn>/g, '').trim();
    const startIdx = cleaned.indexOf('{');
    const endIdx = cleaned.lastIndexOf('}');
    if (startIdx === -1 || endIdx === -1) {
        throw new Error('No JSON object found in response');
    }
    cleaned = cleaned.substring(startIdx, endIdx + 1);
    try { ... } catch (error: any) {
        throw new Error(`JSON parsing failed: ${error.message}`);
    }
  \<close>
\<close>

definition parseResponse :: "runtime \<Rightarrow> string \<Rightarrow> js_error + function_call" where
  "parseResponse rt response =
     (let cleaned = String_trim (String_replaceAll response ''<end_of_turn>'' []);
          startIdx = String_indexOf cleaned CHR ''{'';
          endIdx = String_lastIndexOf cleaned CHR ''}''
      in if startIdx = - 1 \<or> endIdx = - 1
         then Inl (Error ''No JSON object found in response'')
         else
           (case parseResponse_try rt (String_substring cleaned startIdx (endIdx + 1)) of
              Inl e \<Rightarrow> Inl (Error (''JSON parsing failed: '' @ message e))
            | Inr functionCall \<Rightarrow> Inr functionCall))"

text \<open>
  What the specification describes instead of the cut from the first \<^verbatim>\<open>{\<close> to the last
  \<^verbatim>\<open>}\<close>: the first balanced \<^verbatim>\<open>{...}\<close> of the text. \<open>balancedPrefix d s\<close> reads \<open>s\<close>
  with \<open>d\<close> braces open and returns the text up to the brace that closes the last of
  them.
\<close>

fun balancedPrefix :: "nat \<Rightarrow> string \<Rightarrow> string option" where
  "balancedPrefix d [] = None"
| "balancedPrefix d (c # cs) =
     (if c = CHR ''{'' then map_option ((#) c) (balancedPrefix (Suc d) cs)
      else if c = CHR ''}'' then
        (if d \<le> 1 then Some [c] else map_option ((#) c) (balancedPrefix (d - 1) cs))
      else map_option ((#) c) (balancedPrefix d cs))"

definition firstBalancedObject :: "string \<Rightarrow> string option" where
  "firstBalancedObject s =
     (case dropWhile (\<lambda>c. c \<noteq> CHR ''{'') s of
        [] \<Rightarrow> None
      | c # cs \<Rightarrow> map_option ((#) c) (balancedPrefix 1 cs))"

subsection \<open>The engine\<close>

datatype platform = Web | Android | IOS | OtherOS

text \<open>\<^verbatim>\<open>ModelConfig\<close> and \<^verbatim>\<open>InferenceOptions\<close>: every field is optional.\<close>

record ModelConfig =
  modelPath :: "string option"
  nGpuLayers :: "int option"
  nCtx :: "int option"
  nBatch :: "int option"
  nThreads :: "int option"

record InferenceOptions =
  maxTokens :: "int option"
  temperature :: "real option"
  topP :: "real option"

text \<open>The arguments that the engine hands to \<^verbatim>\<open>initLlama\<close> and to \<^verbatim>\<open>completion\<close>.\<close>

record llama_params =
  model :: string
  use_mlock :: bool
  n_gpu_layers :: int
  n_ctx :: int
  n_batch :: int
  n_threads :: int

record completion_params =
  prompt :: string
  n_predict :: int
  completion_temperature :: real
  top_p :: real
  stop :: "string list"

text \<open>The remote endpoint's answer to one \<^verbatim>\<open>axios.post\<close>: the promise resolves with
  \<^verbatim>\<open>response.data\<close>, or rejects with an error whose \<^verbatim>\<open>response?.status\<close> is the
  status of the answer (\<open>None\<close>: no answer came, as on a transport failure or a
  timeout).\<close>

datatype http_outcome = Resolved function_call | Rejected "nat option"

text \<open>
  The world outside the sources, as far as they consult it: the platform
  (\<^verbatim>\<open>Platform.OS\<close>, \<^verbatim>\<open>Constants.isDevice\<close>, \<^verbatim>\<open>Constants.expoConfig?.hostUri\<close>), the
  JavaScript engine, the \<^verbatim>\<open>llama.rn\<close> module (\<open>initLlama\<close> is \<open>False\<close> when the import
  or the initialisation throws; a context is held as the arguments it was created
  from), and the remote endpoint (url, command and timeout in milliseconds).
\<close>

record env =
  platformOS :: platform
  isDevice :: bool
  hostUri :: "string option"
  js :: runtime
  initLlama :: "llama_params \<Rightarrow> bool"
  completion :: "llama_params \<Rightarrow> completion_params \<Rightarrow> js_error + string"
  axiosPost :: "string \<Rightarrow> string \<Rightarrow> nat option \<Rightarrow> http_outcome"

text \<open>The calls that leave the process while a command is interpreted.\<close>

datatype external_call =
    LlamaCompletion completion_params
  | AxiosPost string string "nat option"

text \<open>The fields of \<^verbatim>\<open>class FunctionGemmaEngine\<close>.\<close>

record engine =
  isLoaded :: bool
  loadError :: "string option"
  llamaContext :: "llama_params option"

definition newEngine :: engine where
  "newEngine = \<lparr>isLoaded = False, loadError = None, llamaContext = None\<rparr>"

definition declaration_open_browser :: string where
  "declaration_open_browser =
      ''<start_function_declaration>declaration:open_browser{description:<escape'' @
      ''>Opens a web browser to the specified URL<escape>,parameters:{type:<esca'' @
      ''pe>OBJECT<escape>,properties:{url:{type:<escape>STRING<escape>,descripti'' @
      ''on:<escape>The URL to open<escape>}},required:[url]}}<end_function_decla'' @
      ''ration>''"

definition declaration_search_web :: string where
  "declaration_search_web =
      ''<start_function_declaration>declaration:search_web{description:<escape>S'' @
      ''earches the web using a search engine<escape>,parameters:{type:<escape>O'' @
      ''BJECT<escape>,properties:{query:{type:<escape>STRING<escape>,description'' @
      '':<escape>The search query<escape>}},required:[query]}}<end_function_decl'' @
      ''aration>''"

definition declaration_go_back :: string where
  "declaration_go_back =
      ''<start_function_declaration>declaration:go_back{description:<escape>Navi'' @
      ''gate back in browser history<escape>,parameters:{type:<escape>OBJECT<esc'' @
      ''ape>,properties:{},required:[]}}<end_function_declaration>''"

definition declaration_go_forward :: string where
  "declaration_go_forward =
      ''<start_function_declaration>declaration:go_forward{description:<escape>N'' @
      ''avigate forward in browser history<escape>,parameters:{type:<escape>OBJE'' @
      ''CT<escape>,properties:{},required:[]}}<end_function_declaration>''"

definition declaration_refresh_page :: string where
  "declaration_refresh_page =
      ''<start_function_declaration>declaration:refresh_page{description:<escape'' @
      ''>Refresh the current page<escape>,parameters:{type:<escape>OBJECT<escape'' @
      ''>,properties:{},required:[]}}<end_function_declaration>''"

definition FUNCTION_DECLARATIONS :: string where
  "FUNCTION_DECLARATIONS =
     declaration_open_browser @ [CHR 0x0A] @ declaration_search_web @ [CHR 0x0A] @
     declaration_go_back @ [CHR 0x0A] @ declaration_go_forward @ [CHR 0x0A] @
     declaration_refresh_page"

text \<open>\<^verbatim>\<open>getBundledModelPath()\<close>\<close>

definition getBundledModelPath :: "env \<Rightarrow> string option" where
  "getBundledModelPath w =
     (if platformOS w = Web then None
      else if platformOS w = Android
        then Some ''file:///android_asset/models/functiongemma-270m-it-Q4_K_M.gguf''
      else if platformOS w = IOS then Some ''functiongemma-270m-it-Q4_K_M.gguf''
      else None)"

text \<open>
  \<^verbatim>\<open>loadModel(modelPath, config?)\<close>: the result and the engine after the call. The
  function catches everything it calls, so it does not throw.
\<close>

definition loadModel :: "env \<Rightarrow> string \<Rightarrow> ModelConfig option \<Rightarrow> engine \<Rightarrow> bool \<times> engine" where
  "loadModel w path config e =
     (if platformOS w = Web then
        (False, e\<lparr>loadError := Some ''Web platform not yet supported for on-device inference''\<rparr>)
      else
        (let params =
               \<lparr>model = path,
                use_mlock = True,
                n_gpu_layers = (case Option.bind config nGpuLayers of Some n \<Rightarrow> n | None \<Rightarrow> 99),
                n_ctx = (case Option.bind config nCtx of Some n \<Rightarrow> n | None \<Rightarrow> 2048),
                n_batch = (case Option.bind config nBatch of Some n \<Rightarrow> n | None \<Rightarrow> 512),
                n_threads = (case Option.bind config nThreads of Some n \<Rightarrow> n | None \<Rightarrow> 4)\<rparr>
         in if initLlama w params then
              (True, e\<lparr>llamaContext := Some params, isLoaded := True, loadError := None\<rparr>)
            else
              (False, e\<lparr>loadError := Some ''llama.rn not installed. Install with: npm install llama.rn''\<rparr>)))"

text \<open>\<^verbatim>\<open>tryLoadBundledModel()\<close>\<close>

definition tryLoadBundledModel :: "env \<Rightarrow> engine \<Rightarrow> bool \<times> engine" where
  "tryLoadBundledModel w e =
     (case getBundledModelPath w of
        None \<Rightarrow> (False, e)
      | Some bundledPath \<Rightarrow> loadModel w bundledPath None e)"

text \<open>\<^verbatim>\<open>unloadModel()\<close>: an error of \<^verbatim>\<open>release()\<close> is caught and logged.\<close>

definition unloadModel :: "engine \<Rightarrow> engine" where
  "unloadModel e = e\<lparr>llamaContext := None, isLoaded := False\<rparr>"

definition isModelLoaded :: "engine \<Rightarrow> bool" where
  "isModelLoaded e = isLoaded e"

definition getLoadError :: "engine \<Rightarrow> string option" where
  "getLoadError e = loadError e"

text \<open>\<^verbatim>\<open>buildPrompt(userInput)\<close>\<close>

definition buildPrompt :: "string \<Rightarrow> string" where
  "buildPrompt userInput =
     ''<bos><start_of_turn>developer'' @ [CHR 0x0A] @
     ''You are a model that can do function calling with the following functions'' @ [CHR 0x0A] @
     FUNCTION_DECLARATIONS @ [CHR 0x0A] @
     ''<end_of_turn>'' @ [CHR 0x0A] @
     ''<start_of_turn>user'' @ [CHR 0x0A] @
     userInput @ ''<end_of_turn>'' @ [CHR 0x0A] @
     ''<start_of_turn>model'' @ [CHR 0x0A]"

text \<open>
  \<^verbatim>\<open>parseCommand(userInput, options?)\<close>: the result and the calls made. Whatever the
  completion or \<^verbatim>\<open>parseResponse\<close> throws is thrown again as
  \<^verbatim>\<open>new Error(`Inference failed: ${error.message}`)\<close>.
\<close>

definition parseCommand ::
  "env \<Rightarrow> engine \<Rightarrow> string \<Rightarrow> InferenceOptions option \<Rightarrow>
   (js_error + function_call) \<times> external_call list" where
  "parseCommand w e userInput options =
     (case (isLoaded e, llamaContext e) of
        (True, Some ctx) \<Rightarrow>
          (let request =
                 \<lparr>prompt = buildPrompt userInput,
                  n_predict = (case Option.bind options maxTokens of Some n \<Rightarrow> n | None \<Rightarrow> 256),
                  completion_temperature =
                    (case Option.bind options temperature of Some t \<Rightarrow> t | None \<Rightarrow> 0),
                  top_p = (case Option.bind options topP of Some t \<Rightarrow> t | None \<Rightarrow> 1),
                  stop = [''<end_of_turn>'']\<rparr>
           in (case (case completion w ctx request of
                       Inl e \<Rightarrow> Inl e
                     | Inr response_text \<Rightarrow> parseResponse (js w) response_text) of
                 Inl error \<Rightarrow> Inl (Error (''Inference failed: '' @ message error))
               | Inr functionCall \<Rightarrow> Inr functionCall,
               [LlamaCompletion request]))
      | _ \<Rightarrow> (Inl (Error ''Model not loaded. Call loadModel() first.''), []))"

section \<open>The voice service\<close>

datatype InferenceMode = ON_DEVICE | BACKEND | AUTO

text \<open>
  The module variables of the voice service and the engine singleton of the engine
  module (\<open>None\<close>: \<^verbatim>\<open>engineInstance\<close> is \<^verbatim>\<open>null\<close>).
\<close>

record app_state =
  currentMode :: InferenceMode
  onDeviceAvailable :: bool
  autoInitAttempted :: bool
  engineInstance :: "engine option"

text \<open>The state at process start.\<close>

definition initialState :: app_state where
  "initialState =
     \<lparr>currentMode = AUTO, onDeviceAvailable = False, autoInitAttempted = False,
      engineInstance = None\<rparr>"

text \<open>\<^verbatim>\<open>getBackendUrl()\<close>; \<^verbatim>\<open>API_URL\<close> is its value.\<close>

definition getBackendUrl :: "env \<Rightarrow> string" where
  "getBackendUrl w =
     (if platformOS w = Android \<and> \<not> isDevice w then ''http://10.0.2.2:8000''
      else (case hostUri w of
              Some debuggerHost \<Rightarrow>
                if debuggerHost \<noteq> []
                then ''http://'' @ takeWhile (\<lambda>c. c \<noteq> CHR '':'') debuggerHost @ '':8000''
                else ''http://localhost:8000''
            | None \<Rightarrow> ''http://localhost:8000''))"

definition API_URL :: "env \<Rightarrow> string" where
  "API_URL w = getBackendUrl w"

text \<open>
  \<^verbatim>\<open>getFunctionGemmaEngine()\<close>: the singleton, created on first use. The engine is an
  object, so what a method does to it is stored back in \<open>engineInstance\<close>.
\<close>

definition getFunctionGemmaEngine :: "app_state \<Rightarrow> engine \<times> app_state" where
  "getFunctionGemmaEngine st =
     (case engineInstance st of
        None \<Rightarrow> (newEngine, st\<lparr>engineInstance := Some newEngine\<rparr>)
      | Some e \<Rightarrow> (e, st))"

text \<open>\<^verbatim>\<open>releaseFunctionGemmaEngine()\<close>\<close>

definition releaseFunctionGemmaEngine :: "app_state \<Rightarrow> app_state" where
  "releaseFunctionGemmaEngine st =
     (case engineInstance st of
        None \<Rightarrow> st
      | Some e \<Rightarrow> st\<lparr>engineInstance := None\<rparr>)"

text \<open>\<^verbatim>\<open>autoInitializeOnDevice()\<close>: the promised value and the state after the call.\<close>

definition autoInitializeOnDevice :: "env \<Rightarrow> app_state \<Rightarrow> bool \<times> app_state" where
  "autoInitializeOnDevice w st =
     (if autoInitAttempted st then (onDeviceAvailable st, st)
      else
        (let st1 = st\<lparr>autoInitAttempted := True\<rparr>;
             (e, st2) = getFunctionGemmaEngine st1;
             (success, e') = tryLoadBundledModel w e;
             st3 = st2\<lparr>engineInstance := Some e'\<rparr>
         in if success then (True, st3\<lparr>onDeviceAvailable := True\<rparr>) else (False, st3)))"

text \<open>\<^verbatim>\<open>initializeOnDeviceInference(modelPath)\<close>\<close>

definition initializeOnDeviceInference :: "env \<Rightarrow> string \<Rightarrow> app_state \<Rightarrow> bool \<times> app_state" where
  "initializeOnDeviceInference w path st =
     (let (e, st1) = getFunctionGemmaEngine st;
          (success, e') = loadModel w path None e;
          st2 = st1\<lparr>engineInstance := Some e'\<rparr>
      in if success then (True, st2\<lparr>onDeviceAvailable := True\<rparr>) else (False, st2))"

definition setInferenceMode :: "InferenceMode \<Rightarrow> app_state \<Rightarrow> app_state" where
  "setInferenceMode mode st = st\<lparr>currentMode := mode\<rparr>"

definition getInferenceMode :: "app_state \<Rightarrow> InferenceMode" where
  "getInferenceMode st = currentMode st"

definition isOnDeviceAvailable :: "app_state \<Rightarrow> bool" where
  "isOnDeviceAvailable st = onDeviceAvailable st"

text \<open>
  \<^verbatim>\<open>parseCommandOnDevice(command)\<close>: the outcome of the promise, the calls made, and the
  state after the call.
\<close>

definition parseCommandOnDevice ::
  "env \<Rightarrow> app_state \<Rightarrow> string \<Rightarrow> (js_error + function_call) \<times> external_call list \<times> app_state" where
  "parseCommandOnDevice w st command =
     (let (e, st1) = getFunctionGemmaEngine st
      in if \<not> isModelLoaded e then (Inl (Error ''On-device model not loaded''), [], st1)
         else (let (r, calls) = parseCommand w e command None in (r, calls, st1)))"

text \<open>
  \<^verbatim>\<open>parseCommandViaBackend(command)\<close>:
  \<^verbatim>\<open>
    try {
        const response = await axios.post(`${API_URL}/parse-command`, { command, }, { timeout: 10000, });
        return response.data;
    } catch (error: any) {
        if (error.response?.status === 503) {
            throw new Error('Backend server is not running');
        }
        // Fallback: treat as search
        return { name: 'search_web', parameters: { query: command }, };
    }
  \<close>
\<close>

definition parseCommandViaBackend ::
  "env \<Rightarrow> string \<Rightarrow> (js_error + function_call) \<times> external_call list" where
  "parseCommandViaBackend w command =
     (let endpoint = API_URL w @ ''/parse-command''
      in (case axiosPost w endpoint command (Some 10000) of
            Resolved response_data \<Rightarrow> Inr response_data
          | Rejected response_status \<Rightarrow>
              if response_status = Some 503
              then Inl (Error ''Backend server is not running'')
              else Inr \<lparr>name = ''search_web'', parameters = Some [''query'' \<mapsto> command]\<rparr>,
          [AxiosPost endpoint command (Some 10000)]))"

text \<open>
  The first version of the service in the sources, with the remote path only: its
  \<^verbatim>\<open>parseVoiceCommand\<close> is the function above without the timeout.
\<close>

definition parseVoiceCommand_v1 ::
  "env \<Rightarrow> string \<Rightarrow> (js_error + function_call) \<times> external_call list" where
  "parseVoiceCommand_v1 w command =
     (let endpoint = API_URL w @ ''/parse-command''
      in (case axiosPost w endpoint command None of
            Resolved response_data \<Rightarrow> Inr response_data
          | Rejected response_status \<Rightarrow>
              if response_status = Some 503
              then Inl (Error ''Backend server is not running'')
              else Inr \<lparr>name = ''search_web'', parameters = Some [''query'' \<mapsto> command]\<rparr>,
          [AxiosPost endpoint command None]))"

text \<open>
  \<^verbatim>\<open>parseVoiceCommand(command)\<close>: the \<^verbatim>\<open>switch\<close> on the mode. The outer \<^verbatim>\<open>catch\<close>
  logs the error and throws it again, so the outcome is the outcome of the branch.
\<close>

definition parseVoiceCommand ::
  "env \<Rightarrow> app_state \<Rightarrow> string \<Rightarrow> (js_error + function_call) \<times> external_call list \<times> app_state" where
  "parseVoiceCommand w st command =
     (case currentMode st of
        ON_DEVICE \<Rightarrow> parseCommandOnDevice w st command
      | BACKEND \<Rightarrow>
          (let (r, calls) = parseCommandViaBackend w command in (r, calls, st))
      | AUTO \<Rightarrow>
          if onDeviceAvailable st then
            (case parseCommandOnDevice w st command of
               (Inr result, calls, st1) \<Rightarrow> (Inr result, calls, st1)
             | (Inl onDeviceError, calls, st1) \<Rightarrow>
                 (let (r, calls') = parseCommandViaBackend w command
                  in (r, calls @ calls', st1)))
          else
            (let (r, calls) = parseCommandViaBackend w command in (r, calls, st)))"

text \<open>
  The operations that the rest of the application calls on the two modules, each with
  the world it meets, and a run of them from a state.
\<close>

datatype operation =
    AutoInitializeOnDevice
  | InitializeOnDeviceInference string
  | SetInferenceMode InferenceMode
  | ParseVoiceCommand string
  | ReleaseFunctionGemmaEngine

fun step :: "env \<times> operation \<Rightarrow> app_state \<Rightarrow> app_state" where
  "step (w, AutoInitializeOnDevice) st = snd (autoInitializeOnDevice w st)"
| "step (w, InitializeOnDeviceInference path) st = snd (initializeOnDeviceInference w path st)"
| "step (w, SetInferenceMode mode) st = setInferenceMode mode st"
| "step (w, ParseVoiceCommand command) st = snd (snd (parseVoiceCommand w st command))"
| "step (w, ReleaseFunctionGemmaEngine) st = releaseFunctionGemmaEngine st"

definition run :: "(env \<times> operation) list \<Rightarrow> app_state \<Rightarrow> app_state" where
  "run ops st = fold step ops st"

section \<open>Abbreviations and sample inputs for the statements\<close>

text \<open>No navigation between two states: the URLs and the web view are as before.\<close>

definition noNavigation :: "browser_state \<Rightarrow> browser_state \<Rightarrow> bool" where
  "noNavigation st st' \<longleftrightarrow>
     url st' = url st \<and> currentUrl st' = currentUrl st \<and> webView st' = webView st"

text \<open>The call that the remote path makes up when the request fails.\<close>

definition searchFallback :: "string \<Rightarrow> function_call" where
  "searchFallback command = \<lparr>name = ''search_web'', parameters = Some [''query'' \<mapsto> command]\<rparr>"

text \<open>
  Names for three parts of \<^verbatim>\<open>parseResponse\<close>: the response with the end-of-turn markers
  removed and trimmed, the error of the name test, and what the \<^verbatim>\<open>catch\<close> block makes
  of the outcome of the \<^verbatim>\<open>try\<close> block.
\<close>

definition cleanResponse :: "string \<Rightarrow> string" where
  "cleanResponse response = String_trim (String_replaceAll response ''<end_of_turn>'' [])"

definition invalidName :: js_error where
  "invalidName =
     Error (''Invalid function call: missing or invalid '' @ [CHR 0x22] @ ''name'' @ [CHR 0x22] @ '' field'')"

definition rethrow :: "js_error + function_call \<Rightarrow> js_error + function_call" where
  "rethrow r =
     (case r of
        Inl e \<Rightarrow> Inl (Error (''JSON parsing failed: '' @ message e))
      | Inr functionCall \<Rightarrow> Inr functionCall)"

text \<open>The screen as \<^verbatim>\<open>useState\<close> initialises it, with the web view mounted.\<close>

definition initialBrowser :: browser_state where
  "initialBrowser =
     \<lparr>url = ''https://www.google.com'', currentUrl = ''https://www.google.com'',
      transcript = [], status = [], showFeedback = False, feedbackOpacity = 0,
      hideTimer = None, webView = Some []\<rparr>"

text \<open>
  A sample engine for the examples: the \<^verbatim>\<open>TypeError\<close> messages in V8's wording, and
  \<^verbatim>\<open>JSON.parse\<close> as a table of its answers on the texts that the examples hand to it.
\<close>

definition exampleRuntime :: runtime where
  \<open>exampleRuntime =
     \<lparr>JSON_parse = (\<lambda>text.
        if text = ''{"name":"open_browser","parameters":{"url":"github.com","tab":2}}''
          then Inr (JObject [(''name'', JString ''open_browser''),
                 (''parameters'', JObject [(''url'', JString ''github.com''), (''tab'', JNumber ''2'')])])
        else if text = ''{"name":"go_back"}''
          then Inr (JObject [(''name'', JString ''go_back'')])
        else if text = ''{"parameters":{"url":"github.com"}}''
          then Inr (JObject [(''parameters'', JObject [(''url'', JString ''github.com'')])])
        else if text = ''{"name":"go_back"} {"name":"go_forward"}''
          then Inl ''Unexpected non-whitespace character after JSON at position 19''
        else Inl ''(a text outside the table)''),
      typeErrorMessage = (\<lambda>k. case k of
          ReadPropertyOfNull p \<Rightarrow>
            ''Cannot read properties of null (reading '' @ [CHR 0x27] @ p @ [CHR 0x27] @ '')''
        | ReadPropertyOfUndefined p \<Rightarrow>
            ''Cannot read properties of undefined (reading '' @ [CHR 0x27] @ p @ [CHR 0x27] @ '')''
        | ConvertNullToObject \<Rightarrow> ''Cannot convert undefined or null to object''
        | NoPrimitiveValue \<Rightarrow> ''Cannot convert object to primitive value'')\<rparr>\<close>

text \<open>
  A sample world: an Android device on which \<^verbatim>\<open>llama.rn\<close> loads every model, the
  endpoint gives \<open>answer\<close> to every request and the model gives \<open>generated\<close> to every
  prompt.
\<close>

definition exampleEnv :: "http_outcome \<Rightarrow> js_error + string \<Rightarrow> env" where
  "exampleEnv answer generated =
     \<lparr>platformOS = Android, isDevice = True, hostUri = Some ''192.168.1.20:8081'',
      js = exampleRuntime,
      initLlama = (\<lambda>params. True),
      completion = (\<lambda>ctx request. generated),
      axiosPost = (\<lambda>endpoint command timeout. answer)\<rparr>"

text \<open>The state after a model was loaded from the settings screen, in the default mode.\<close>

definition loadedState :: app_state where
  "loadedState =
     snd (initializeOnDeviceInference (exampleEnv (Rejected None) (Inr []))
            ''file:///data/functiongemma.gguf'' initialState)"

section \<open>Properties of the string methods\<close>

lemma String_startsWith_iff: "String_startsWith s p \<longleftrightarrow> (\<exists>post. s = p @ post)"
proof
  assume "String_startsWith s p"
  then have "s = p @ drop (length p) s"
    unfolding String_startsWith_def by (metis append_take_drop_id)
  then show "\<exists>post. s = p @ post" ..
next
  assume "\<exists>post. s = p @ post"
  then show "String_startsWith s p"
    unfolding String_startsWith_def by auto
qed

lemma String_includes_iff: "String_includes s sub \<longleftrightarrow> (\<exists>pre post. s = pre @ sub @ post)"
proof (induction s)
  case Nil
  then show ?case by auto
next
  case (Cons c cs)
  show ?case
  proof
    assume "String_includes (c # cs) sub"
    then consider "String_startsWith (c # cs) sub" | "String_includes cs sub" by auto
    then show "\<exists>pre post. c # cs = pre @ sub @ post"
    proof cases
      case 1
      then obtain post where "c # cs = sub @ post" using String_startsWith_iff by blast
      then have "c # cs = [] @ sub @ post" by simp
      then show ?thesis by blast
    next
      case 2
      then obtain pre post where "cs = pre @ sub @ post" using Cons.IH by blast
      then have "c # cs = (c # pre) @ sub @ post" by simp
      then show ?thesis by blast
    qed
  next
    assume "\<exists>pre post. c # cs = pre @ sub @ post"
    then obtain pre post where e: "c # cs = pre @ sub @ post" by blast
    show "String_includes (c # cs) sub"
    proof (cases pre)
      case Nil
      with e have "String_startsWith (c # cs) sub" using String_startsWith_iff by auto
      then show ?thesis by simp
    next
      case (Cons a pre')
      with e have "cs = pre' @ sub @ post" by simp
      then have "String_includes cs sub" using Cons.IH by blast
      then show ?thesis by simp
    qed
  qed
qed

lemma String_includesI: "s = pre @ sub @ post \<Longrightarrow> String_includes s sub"
  using String_includes_iff by blast

lemma String_includes_char: "String_includes s [c] \<longleftrightarrow> c \<in> set s"
  by (induction s) (auto simp: String_startsWith_def)

lemma String_replace_absent:
  "\<not> String_includes s pat \<Longrightarrow> String_replace s pat rep = s"
  by (induction s) auto

lemma String_replace_present:
  "String_includes s pat \<Longrightarrow>
   \<exists>pre post. s = pre @ pat @ post \<and> String_replace s pat rep = pre @ rep @ post"
proof (induction s)
  case Nil
  then show ?case by auto
next
  case (Cons c cs)
  show ?case
  proof (cases "String_startsWith (c # cs) pat")
    case True
    then obtain post where p: "c # cs = pat @ post" using String_startsWith_iff by blast
    then have d: "drop (length pat) (c # cs) = post" by (metis append_eq_conv_conj)
    from True have "String_replace (c # cs) pat rep = rep @ drop (length pat) (c # cs)"
      by simp
    with d have "String_replace (c # cs) pat rep = [] @ rep @ post" by simp
    moreover from p have "c # cs = [] @ pat @ post" by simp
    ultimately show ?thesis by blast
  next
    case False
    with Cons.prems have "String_includes cs pat" by simp
    then obtain pre post where "cs = pre @ pat @ post" "String_replace cs pat rep = pre @ rep @ post"
      using Cons.IH by blast
    with False have "c # cs = (c # pre) @ pat @ post \<and> String_replace (c # cs) pat rep = (c # pre) @ rep @ post"
      by simp
    then show ?thesis by blast
  qed
qed

lemma String_replace_hd:
  assumes "s \<noteq> []" "pat \<noteq> []" "rep \<noteq> []" "hd pat = hd rep"
  shows "String_replace s pat rep \<noteq> [] \<and> hd (String_replace s pat rep) = hd s"
proof (cases s)
  case Nil
  with assms show ?thesis by simp
next
  case (Cons c cs)
  show ?thesis
  proof (cases "String_startsWith (c # cs) pat")
    case True
    then obtain post where "c # cs = pat @ post" using String_startsWith_iff by blast
    with assms have "hd pat = c" by (metis hd_append2 list.sel(1))
    with True Cons assms show ?thesis by simp
  next
    case False
    with Cons show ?thesis by simp
  qed
qed

lemma String_trim_fixed:
  "s = [] \<or> (\<not> isWhiteSpace (hd s) \<and> \<not> isWhiteSpace (last s)) \<Longrightarrow> String_trim s = s"
proof (cases s)
  case Nil
  then show ?thesis by (simp add: String_trim_def)
next
  case (Cons c cs)
  assume "s = [] \<or> (\<not> isWhiteSpace (hd s) \<and> \<not> isWhiteSpace (last s))"
  with Cons have h: "\<not> isWhiteSpace (hd s)" and l: "\<not> isWhiteSpace (last s)" by auto
  from h Cons have 1: "dropWhile isWhiteSpace s = s" by simp
  from Cons have "rev s \<noteq> []" by simp
  moreover from l have "\<not> isWhiteSpace (hd (rev s))"
    using hd_rev [of s] Cons by (metis list.distinct(1))
  ultimately have "dropWhile isWhiteSpace (rev s) = rev s"
    by (cases "rev s") auto
  with 1 show ?thesis by (simp add: String_trim_def)
qed

lemma String_trim_ends:
  "String_trim s = [] \<or>
   (\<not> isWhiteSpace (hd (String_trim s)) \<and> \<not> isWhiteSpace (last (String_trim s)))"
proof (cases "String_trim s = []")
  case True
  then show ?thesis by simp
next
  case False
  define d where "d = dropWhile isWhiteSpace s"
  define e where "e = dropWhile isWhiteSpace (rev d)"
  have t: "String_trim s = rev e" by (simp add: String_trim_def d_def e_def)
  with False have ne: "e \<noteq> []" by simp
  then have "\<not> isWhiteSpace (hd e)" unfolding e_def by (rule hd_dropWhile)
  with ne t have l: "\<not> isWhiteSpace (last (String_trim s))" by (simp add: last_rev)
  have "rev d = takeWhile isWhiteSpace (rev d) @ e" by (simp add: e_def)
  then have "d = rev e @ rev (takeWhile isWhiteSpace (rev d))"
    by (metis rev_append rev_rev_ident)
  with ne have hd: "hd d = hd (rev e)" and dne: "d \<noteq> []" 
    by (metis hd_append2 rev_is_Nil_conv, metis Nil_is_append_conv rev_is_Nil_conv)
  from dne have "\<not> isWhiteSpace (hd d)" unfolding d_def by (rule hd_dropWhile)
  with hd t l show ?thesis by simp
qed

lemma normalizeURL_prepend_scheme:
  assumes "\<not> String_includes t ''.''" "\<not> String_includes t ''localhost''"
  shows "\<not> String_includes (''https://'' @ t) ''.''"
    and "\<not> String_includes (''https://'' @ t) ''localhost''"
  using assms by (simp_all add: String_startsWith_def)

lemma String_replace_prefix: "String_replace (pat @ s) pat rep = rep @ s"
proof (cases "pat @ s")
  case Nil
  then show ?thesis by simp
next
  case (Cons a list)
  then have "String_startsWith (a # list) pat"
    using String_startsWith_iff by metis
  moreover from Cons have "drop (length pat) (a # list) = s"
    by (metis append_eq_conv_conj)
  ultimately have "String_replace (a # list) pat rep = rep @ s" by simp
  with Cons show ?thesis by simp
qed

text \<open>
  Claim C5. For every bare hostname \<open>h\<close> (a trimmed text with no \<^verbatim>\<open>://\<close>, no dot and
  no \<^verbatim>\<open>localhost\<close> in it), \<^verbatim>\<open>normalizeURL(h)\<close> is \<^verbatim>\<open>"https://www." + h + ".com"\<close>:
  the \<^verbatim>\<open>https://\<close> that the second step puts in front is replaced with
  \<^verbatim>\<open>https://www.\<close> and \<^verbatim>\<open>.com\<close> is appended.
\<close>

theorem normalizeURL_bare_hostname:
  assumes "String_trim h = h"
    and "\<not> String_includes h ''://''"
    and "\<not> String_includes h ''.''"
    and "\<not> String_includes h ''localhost''"
  shows "normalizeURL h = ''https://www.'' @ h @ ''.com''"
proof -
  have r: "String_replace (''https://'' @ h) ''https://'' ''https://www.'' = ''https://www.'' @ h"
    by (rule String_replace_prefix)
  from assms(3,4) have "\<not> String_includes (''https://'' @ h) ''.''"
    and "\<not> String_includes (''https://'' @ h) ''localhost''"
    by (rule normalizeURL_prepend_scheme)+
  with assms(1,2) r show ?thesis
    unfolding normalizeURL_def Let_def by simp
qed

theorem normalizeURL_bare_hostname_witness:
  "String_trim ''google'' = ''google'' \<and> \<not> String_includes ''google'' ''://'' \<and>
   \<not> String_includes ''google'' ''.'' \<and> \<not> String_includes ''google'' ''localhost'' \<and>
   normalizeURL ''google'' = ''https://www.google.com''"
proof -
  have 1: "String_trim ''google'' = ''google''"
    by (simp add: String_trim_def isWhiteSpace_def)
  have 2: "\<not> String_includes ''google'' ''://''"
    and 3: "\<not> String_includes ''google'' ''.''"
    and 4: "\<not> String_includes ''google'' ''localhost''"
    by (simp_all add: String_startsWith_def)
  from normalizeURL_bare_hostname [OF 1 2 3 4] 1 2 3 4 show ?thesis by simp
qed

lemma normalizeURL_fixed: "normalized_form r \<Longrightarrow> normalizeURL r = r"
  unfolding normalized_form_def normalizeURL_def Let_def
  by (auto simp: String_trim_fixed)

lemma normalized_form_normalizeURL: "normalized_form (normalizeURL x)"
proof -
  define t where "t = String_trim x"
  have ends: "t = [] \<or> (\<not> isWhiteSpace (hd t) \<and> \<not> isWhiteSpace (last t))"
    unfolding t_def by (rule String_trim_ends)
  show ?thesis
  proof (cases "String_includes t ''://''")
    case scheme: True
    then have tne: "t \<noteq> []" by auto
    with ends have h: "\<not> isWhiteSpace (hd t)" and l: "\<not> isWhiteSpace (last t)" by auto
    show ?thesis
    proof (cases "String_includes t ''.'' \<or> String_includes t ''localhost''")
      case True
      with scheme have "normalizeURL x = t"
        unfolding normalizeURL_def Let_def t_def by auto
      with scheme True tne h l show ?thesis by (simp add: normalized_form_def)
    next
      case False
      define u where "u = String_replace t ''https://'' ''https://www.''"
      from False scheme have n: "normalizeURL x = u @ ''.com''"
        unfolding normalizeURL_def Let_def t_def u_def by auto
      from tne have u: "u \<noteq> [] \<and> hd u = hd t"
        unfolding u_def by (intro String_replace_hd) simp_all
      have "String_includes (u @ ''.com'') ''://''"
      proof (cases "String_includes t ''https://''")
        case True
        then obtain pre post where "u = pre @ ''https://www.'' @ post"
          unfolding u_def using String_replace_present by blast
        then have "u @ ''.com'' = (pre @ ''https'') @ ''://'' @ (''www.'' @ post @ ''.com'')"
          by simp
        then show ?thesis by (rule String_includesI)
      next
        case False
        then have "u = t" unfolding u_def by (rule String_replace_absent)
        moreover from scheme obtain pre post where "t = pre @ ''://'' @ post"
          using String_includes_iff by blast
        ultimately have "u @ ''.com'' = pre @ ''://'' @ (post @ ''.com'')" by simp
        then show ?thesis by (rule String_includesI)
      qed
      moreover have "String_includes (u @ ''.com'') ''.''"
        by (simp add: String_includes_char)
      moreover from u h have "\<not> isWhiteSpace (hd (u @ ''.com''))" by simp
      moreover have "\<not> isWhiteSpace (last (u @ ''.com''))" by (simp add: isWhiteSpace_def)
      ultimately show ?thesis unfolding n normalized_form_def by simp
    qed
  next
    case noscheme: False
    define n1 where "n1 = ''https://'' @ t"
    have inc: "String_includes n1 ''://''"
    proof -
      have "n1 = ''https'' @ ''://'' @ t" by (simp add: n1_def)
      then show ?thesis by (rule String_includesI)
    qed
    have hd1: "\<not> isWhiteSpace (hd n1)" by (simp add: n1_def isWhiteSpace_def)
    have last1: "\<not> isWhiteSpace (last n1)"
    proof (cases "t = []")
      case True
      then show ?thesis by (simp add: n1_def isWhiteSpace_def)
    next
      case False
      with ends show ?thesis by (simp add: n1_def)
    qed
    show ?thesis
    proof (cases "String_includes n1 ''.'' \<or> String_includes n1 ''localhost''")
      case True
      with noscheme have "normalizeURL x = n1"
        unfolding normalizeURL_def Let_def t_def n1_def by auto
      with True inc hd1 last1 show ?thesis by (simp add: normalized_form_def n1_def)
    next
      case False
      have "String_replace n1 ''https://'' ''https://www.'' = ''https://www.'' @ t"
        unfolding n1_def by (rule String_replace_prefix)
      with False noscheme have n: "normalizeURL x = ''https://www.'' @ t @ ''.com''"
        unfolding normalizeURL_def Let_def t_def n1_def by auto
      have "''https://www.'' @ t @ ''.com'' = ''https'' @ ''://'' @ (''www.'' @ t @ ''.com'')"
        by simp
      then have "String_includes (''https://www.'' @ t @ ''.com'') ''://''"
        by (rule String_includesI)
      moreover have "String_includes (''https://www.'' @ t @ ''.com'') ''.''"
        by (simp add: String_includes_char)
      ultimately show ?thesis unfolding n normalized_form_def
        by (simp add: isWhiteSpace_def)
    qed
  qed
qed

text \<open>
  Claim C6. \<^verbatim>\<open>normalizeURL\<close> is idempotent: normalising a normalised text changes
  nothing, for every input.
\<close>

theorem normalizeURL_idempotent: "normalizeURL (normalizeURL x) = normalizeURL x"
  by (rule normalizeURL_fixed) (rule normalized_form_normalizeURL)

theorem normalizeURL_idempotent_witness:
  "normalizeURL (normalizeURL ''  google '') = ''https://www.google.com''"
  using normalizeURL_idempotent [of "''  google ''"]
  by (simp add: normalizeURL_def String_trim_def isWhiteSpace_def String_startsWith_def)

section \<open>The command executor: unknown names and missing parameters\<close>

lemmas executeFunction_defs =
  executeFunction_def executeFunction_v1_def executeFunction_with_def readParameter_def
  scheduleFeedbackHide_def showFeedbackPanel_def showFeedbackPanel_v1_def loadURL_def
  webViewCall_def noNavigation_def

text \<open>
  Claim C8. For \<^verbatim>\<open>{name: "open_browser", parameters: {}}\<close> the executor returns (it does not
  throw), the status is \<^verbatim>\<open>No URL provided\<close>, the panel is shown, and nothing is
  navigated: \<^verbatim>\<open>url\<close>, \<^verbatim>\<open>currentUrl\<close> and the web view are as before. Both versions of
  the screen.
\<close>

theorem executeFunction_missing_url:
  "let call = \<lparr>name = ''open_browser'', parameters = Some Map.empty\<rparr>;
       st' = scheduleFeedbackHide 3000 (showFeedbackPanel cmd ''No URL provided'' True st);
       st1 = scheduleFeedbackHide 3000 (showFeedbackPanel_v1 cmd ''No URL provided'' True st)
   in executeFunction rt call cmd st = Inr st' \<and>
      status st' = ''No URL provided'' \<and> showFeedback st' \<and> noNavigation st st' \<and>
      executeFunction_v1 rt call cmd st = Inr st1 \<and>
      status st1 = ''No URL provided'' \<and> showFeedback st1 \<and> noNavigation st st1"
  by (simp add: Let_def executeFunction_defs)

theorem executeFunction_missing_url_witness:
  "executeFunction exampleRuntime \<lparr>name = ''open_browser'', parameters = Some Map.empty\<rparr>
     ''open it'' initialBrowser =
   Inr (initialBrowser\<lparr>status := ''No URL provided'', showFeedback := True,
          feedbackOpacity := 1, hideTimer := Some 3000\<rparr>)"
  using executeFunction_missing_url [where rt = exampleRuntime and cmd = "''open it''" and st = initialBrowser]
  by (simp add: Let_def scheduleFeedbackHide_def showFeedbackPanel_def)

text \<open>
  Claim C9. For a call whose name is none of \<^verbatim>\<open>open_browser\<close>, \<^verbatim>\<open>search_web\<close>,
  \<^verbatim>\<open>go_back\<close>, \<^verbatim>\<open>go_forward\<close>, \<^verbatim>\<open>refresh_page\<close>, whatever its parameters (absent
  ones too), the executor returns, the status is \<^verbatim>\<open>Unknown command: \<close> and the name, and
  nothing is navigated.
\<close>

theorem executeFunction_unknown_command:
  assumes "name call \<notin> {''open_browser'', ''search_web'', ''go_back'', ''go_forward'', ''refresh_page''}"
  shows "let unknown = ''Unknown command: '' @ name call;
       st' = scheduleFeedbackHide 3000 (showFeedbackPanel cmd unknown True st);
       st1 = scheduleFeedbackHide 3000 (showFeedbackPanel_v1 cmd unknown True st)
   in executeFunction rt call cmd st = Inr st' \<and>
      status st' = unknown \<and> showFeedback st' \<and> noNavigation st st' \<and>
      executeFunction_v1 rt call cmd st = Inr st1 \<and>
      status st1 = unknown \<and> showFeedback st1 \<and> noNavigation st st1"
  using assms by (simp add: Let_def executeFunction_defs)

theorem executeFunction_unknown_command_witness:
  "''frobnicate'' \<notin> {''open_browser'', ''search_web'', ''go_back'', ''go_forward'', ''refresh_page''} \<and>
   executeFunction exampleRuntime \<lparr>name = ''frobnicate'', parameters = None\<rparr>
     ''frobnicate it'' initialBrowser =
   Inr (initialBrowser\<lparr>status := ''Unknown command: frobnicate'', showFeedback := True,
          feedbackOpacity := 1, hideTimer := Some 3000\<rparr>)"
  using executeFunction_unknown_command
    [where call = "\<lparr>name = ''frobnicate'', parameters = None\<rparr>" and rt = exampleRuntime
       and cmd = "''frobnicate it''" and st = initialBrowser]
  by (simp add: Let_def scheduleFeedbackHide_def showFeedbackPanel_def)

text \<open>
  Claim C10. A required parameter that is the empty text is treated as an absent one:
  for \<^verbatim>\<open>open_browser\<close> with \<^verbatim>\<open>url: ""\<close> and for \<^verbatim>\<open>search_web\<close> with
  \<^verbatim>\<open>query: ""\<close> the executor ends in the state it ends in when the parameter is
  removed, with the missing-parameter status and no navigation.
\<close>

theorem executeFunction_empty_parameter:
  "(ps ''url'' = Some [] \<longrightarrow>
      (let st' = scheduleFeedbackHide 3000 (showFeedbackPanel cmd ''No URL provided'' True st);
           st1 = scheduleFeedbackHide 3000 (showFeedbackPanel_v1 cmd ''No URL provided'' True st)
       in executeFunction rt \<lparr>name = ''open_browser'', parameters = Some ps\<rparr> cmd st = Inr st' \<and>
          executeFunction rt \<lparr>name = ''open_browser'', parameters = Some (ps(''url'' := None))\<rparr> cmd st
            = Inr st' \<and>
          noNavigation st st' \<and>
          executeFunction_v1 rt \<lparr>name = ''open_browser'', parameters = Some ps\<rparr> cmd st = Inr st1 \<and>
          executeFunction_v1 rt \<lparr>name = ''open_browser'', parameters = Some (ps(''url'' := None))\<rparr> cmd st
            = Inr st1 \<and>
          noNavigation st st1)) \<and>
   (ps ''query'' = Some [] \<longrightarrow>
      (let st' = scheduleFeedbackHide 3000 (showFeedbackPanel cmd ''No search query provided'' True st);
           st1 = scheduleFeedbackHide 3000 (showFeedbackPanel_v1 cmd ''No search query provided'' True st)
       in executeFunction rt \<lparr>name = ''search_web'', parameters = Some ps\<rparr> cmd st = Inr st' \<and>
          executeFunction rt \<lparr>name = ''search_web'', parameters = Some (ps(''query'' := None))\<rparr> cmd st
            = Inr st' \<and>
          noNavigation st st' \<and>
          executeFunction_v1 rt \<lparr>name = ''search_web'', parameters = Some ps\<rparr> cmd st = Inr st1 \<and>
          executeFunction_v1 rt \<lparr>name = ''search_web'', parameters = Some (ps(''query'' := None))\<rparr> cmd st
            = Inr st1 \<and>
          noNavigation st st1))"
  by (simp add: Let_def executeFunction_defs)

theorem executeFunction_empty_parameter_witness:
  "executeFunction exampleRuntime \<lparr>name = ''open_browser'', parameters = Some [''url'' \<mapsto> []]\<rparr>
     ''open'' initialBrowser =
   Inr (initialBrowser\<lparr>status := ''No URL provided'', showFeedback := True,
          feedbackOpacity := 1, hideTimer := Some 3000\<rparr>) \<and>
   executeFunction exampleRuntime \<lparr>name = ''search_web'', parameters = Some [''query'' \<mapsto> []]\<rparr>
     ''search'' initialBrowser =
   Inr (initialBrowser\<lparr>status := ''No search query provided'', showFeedback := True,
          feedbackOpacity := 1, hideTimer := Some 3000\<rparr>)"
  using executeFunction_empty_parameter
      [where ps = "[''url'' \<mapsto> []]" and cmd = "''open''" and st = initialBrowser
         and rt = exampleRuntime]
    executeFunction_empty_parameter
      [where ps = "[''query'' \<mapsto> []]" and cmd = "''search''" and st = initialBrowser
         and rt = exampleRuntime]
  by (simp add: Let_def scheduleFeedbackHide_def showFeedbackPanel_def)

section \<open>Parsing the model's response\<close>

lemma String_indexOf_first:
  "c \<notin> set pre \<Longrightarrow> String_indexOf (pre @ c # rest) c = int (length pre)"
proof -
  assume a: "c \<notin> set pre"
  then have "takeWhile (\<lambda>x. x \<noteq> c) (pre @ c # rest) = pre"
    by (induction pre) auto
  then show ?thesis by (simp add: String_indexOf_def)
qed

lemma String_lastIndexOf_last:
  "c \<notin> set post \<Longrightarrow> String_lastIndexOf (pre @ c # post) c = int (length pre)"
proof -
  assume a: "c \<notin> set post"
  have "rev (pre @ c # post) = rev post @ c # rev pre" by simp
  moreover from a have "takeWhile (\<lambda>x. x \<noteq> c) (rev post @ c # rev pre) = rev post"
    by (induction post rule: rev_induct) auto
  ultimately have "takeWhile (\<lambda>x. x \<noteq> c) (rev (pre @ c # post)) = rev post" by simp
  then show ?thesis unfolding String_lastIndexOf_def by simp
qed

lemma String_substring_middle:
  "String_substring (pre @ mid @ post) (int (length pre)) (int (length pre + length mid)) = mid"
  by (simp add: String_substring_def Let_def min_def max_def)

lemma String_indexOf_absent: "String_indexOf s c = - 1 \<longleftrightarrow> c \<notin> set s"
  by (simp add: String_indexOf_def)

lemma String_lastIndexOf_absent: "String_lastIndexOf s c = - 1 \<longleftrightarrow> c \<notin> set s"
proof (cases "c \<in> set s")
  case True
  then have "c \<in> set (rev s)" by simp
  then have "dropWhile (\<lambda>x. x \<noteq> c) (rev s) \<noteq> []"
    by (simp add: dropWhile_eq_Nil_conv)
  moreover have "length (takeWhile (\<lambda>x. x \<noteq> c) (rev s)) + length (dropWhile (\<lambda>x. x \<noteq> c) (rev s))
      = length (rev s)"
    by (metis length_append takeWhile_dropWhile_id)
  ultimately have "length (takeWhile (\<lambda>x. x \<noteq> c) (rev s)) < length s"
    by (cases "dropWhile (\<lambda>x. x \<noteq> c) (rev s)") auto
  with True show ?thesis by (simp add: String_lastIndexOf_def)
next
  case False
  then show ?thesis by (simp add: String_lastIndexOf_def)
qed

lemma parseResponse_cut:
  assumes "cleanResponse response = pre @ ''{'' @ mid @ ''}'' @ post"
    and "CHR ''{'' \<notin> set pre" and "CHR ''}'' \<notin> set post"
  shows "parseResponse rt response = rethrow (parseResponse_try rt (''{'' @ mid @ ''}''))"
proof -
  let ?c = "cleanResponse response"
  from assms(1,2) have s: "String_indexOf ?c CHR ''{'' = int (length pre)"
    using String_indexOf_first [of "CHR ''{''" pre "mid @ ''}'' @ post"] by simp
  from assms(1,3) have e: "String_lastIndexOf ?c CHR ''}'' = int (length pre + length (''{'' @ mid))"
    using String_lastIndexOf_last [of "CHR ''}''" post "pre @ ''{'' @ mid"] by simp
  have "String_substring (pre @ (''{'' @ mid @ ''}'') @ post) (int (length pre))
          (int (length pre + length (''{'' @ mid @ ''}''))) = ''{'' @ mid @ ''}''"
    by (rule String_substring_middle)
  with assms(1) s e have "String_substring ?c (String_indexOf ?c CHR ''{'')
      (String_lastIndexOf ?c CHR ''}'' + 1) = ''{'' @ mid @ ''}''"
    by simp
  moreover from s e have "String_indexOf ?c CHR ''{'' \<noteq> - 1" "String_lastIndexOf ?c CHR ''}'' \<noteq> - 1"
    by simp_all
  ultimately show ?thesis
    unfolding parseResponse_def rethrow_def cleanResponse_def Let_def by simp
qed

text \<open>
  When the last \<^verbatim>\<open>}\<close> stands before the first \<^verbatim>\<open>{\<close>, \<^verbatim>\<open>substring\<close> swaps its
  arguments and the cut is the text between the two.
\<close>

lemma String_substring_reversed:
  "String_substring (pre @ mid @ post) (int (length pre + length mid)) (int (length pre)) = mid"
  by (simp add: String_substring_def Let_def min_def max_def)

lemma parseResponse_cut_reversed:
  assumes "cleanResponse response = pre @ ''}'' @ mid @ ''{'' @ post"
    and "CHR ''{'' \<notin> set (pre @ ''}'' @ mid)" and "CHR ''}'' \<notin> set (mid @ ''{'' @ post)"
  shows "parseResponse rt response = rethrow (parseResponse_try rt mid)"
proof -
  let ?c = "cleanResponse response"
  from assms(1,2) have s: "String_indexOf ?c CHR ''{'' = int (length (pre @ ''}'' @ mid))"
    using String_indexOf_first [of "CHR ''{''" "pre @ ''}'' @ mid" post] by simp
  from assms(1,3) have e: "String_lastIndexOf ?c CHR ''}'' = int (length pre)"
    using String_lastIndexOf_last [of "CHR ''}''" "mid @ ''{'' @ post" pre] by simp
  have "String_substring ((pre @ ''}'') @ mid @ (''{'' @ post)) (int (length (pre @ ''}'') + length mid))
          (int (length (pre @ ''}''))) = mid"
    by (rule String_substring_reversed)
  with assms(1) s e have "String_substring ?c (String_indexOf ?c CHR ''{'')
      (String_lastIndexOf ?c CHR ''}'' + 1) = mid"
    by (simp add: add.commute)
  moreover from s e have "String_indexOf ?c CHR ''{'' \<noteq> - 1" "String_lastIndexOf ?c CHR ''}'' \<noteq> - 1"
    by simp_all
  ultimately show ?thesis
    unfolding parseResponse_def rethrow_def cleanResponse_def Let_def by simp
qed

lemma parseResponse_no_braces:
  assumes "CHR ''{'' \<notin> set (cleanResponse response) \<or> CHR ''}'' \<notin> set (cleanResponse response)"
  shows "parseResponse rt response = Inl (Error ''No JSON object found in response'')"
  using assms String_indexOf_absent [of "cleanResponse response" "CHR ''{''"]
    String_lastIndexOf_absent [of "cleanResponse response" "CHR ''}''"]
  unfolding parseResponse_def cleanResponse_def Let_def by auto

lemma parseResponse_try_syntax_error:
  "JSON_parse rt text = Inl m \<Longrightarrow> parseResponse_try rt text = Inl (SyntaxError m)"
  by (simp add: parseResponse_try_def)

lemma invalid_name_test:
  "(\<forall>n. v = Some (JString n) \<longrightarrow> n = []) \<longleftrightarrow> (\<not> truthy v \<or> typeof v \<noteq> ''string'')"
proof (cases v)
  case None
  then show ?thesis by simp
next
  case (Some a)
  then show ?thesis by (cases a) simp_all
qed

lemma parseResponse_try_invalid_name:
  assumes "JSON_parse rt text = Inr parsed"
    and "getProperty rt parsed ''name'' = Inr v"
    and "\<forall>n. v = Some (JString n) \<longrightarrow> n = []"
  shows "parseResponse_try rt text = Inl invalidName"
  using assms(1,2) assms(3) [unfolded invalid_name_test]
  by (simp add: parseResponse_try_def invalidName_def)

lemma Object_set_kept: "ps k \<noteq> None \<Longrightarrow> Object_set ps key t k \<noteq> None"
  by (simp add: Object_set_def)

lemma convertEntries_kept:
  "convertEntries rt es ps0 = Inr ps \<Longrightarrow> ps0 k \<noteq> None \<Longrightarrow> ps k \<noteq> None"
proof (induction es arbitrary: ps0)
  case Nil
  then show ?case by simp
next
  case (Cons a es)
  obtain key v where a: "a = (key, v)" by (cases a)
  with Cons.prems(1) obtain t where t: "js_String rt v = Inr t"
    and r: "convertEntries rt es (Object_set ps0 key t) = Inr ps"
    by (auto split: sum.splits)
  from Cons.prems(2) have "Object_set ps0 key t k \<noteq> None" by (rule Object_set_kept)
  with r show ?case by (rule Cons.IH)
qed

lemma convertEntries_all:
  "convertEntries rt es ps0 = Inr ps \<Longrightarrow> (k, v) \<in> set es \<Longrightarrow> k \<noteq> ''__proto__'' \<Longrightarrow> ps k \<noteq> None"
proof (induction es arbitrary: ps0)
  case Nil
  then show ?case by simp
next
  case (Cons a es)
  obtain key u where a: "a = (key, u)" by (cases a)
  with Cons.prems(1) obtain t where t: "js_String rt u = Inr t"
    and r: "convertEntries rt es (Object_set ps0 key t) = Inr ps"
    by (auto split: sum.splits)
  show ?case
  proof (cases "(k, v) = a")
    case True
    with a Cons.prems(3) have "Object_set ps0 key t k \<noteq> None" by (simp add: Object_set_def)
    with r show ?thesis by (rule convertEntries_kept)
  next
    case False
    with Cons.prems(2) have "(k, v) \<in> set es" by simp
    with r show ?thesis using Cons.prems(3) by (rule Cons.IH)
  qed
qed

lemma convertEntries_values:
  "convertEntries rt es ps0 = Inr ps \<Longrightarrow> ps k = Some t \<Longrightarrow>
   ps0 k = Some t \<or> (\<exists>v. (k, v) \<in> set es \<and> js_String rt v = Inr t)"
proof (induction es arbitrary: ps0)
  case Nil
  then show ?case by simp
next
  case (Cons a es)
  obtain key u where a: "a = (key, u)" by (cases a)
  with Cons.prems(1) obtain t' where t': "js_String rt u = Inr t'"
    and r: "convertEntries rt es (Object_set ps0 key t') = Inr ps"
    by (auto split: sum.splits)
  from Cons.IH [OF r Cons.prems(2)]
  consider "Object_set ps0 key t' k = Some t" | "\<exists>v. (k, v) \<in> set es \<and> js_String rt v = Inr t"
    by blast
  then show ?case
  proof cases
    case 1
    then have "ps0 k = Some t \<or> (k = key \<and> t = t')"
      by (auto simp: Object_set_def split: if_splits)
    with a t' show ?thesis by auto
  next
    case 2
    then show ?thesis by auto
  qed
qed

lemma string_name:
  "truthy v \<Longrightarrow> typeof v = ''string'' \<Longrightarrow> \<exists>n. v = Some (JString n) \<and> n \<noteq> []"
proof (cases v)
  case None
  then show "truthy v \<Longrightarrow> ?thesis" by simp
next
  case (Some a)
  then show "truthy v \<Longrightarrow> typeof v = ''string'' \<Longrightarrow> ?thesis" by (cases a) simp_all
qed

lemma object_with_entries_truthy:
  "typeof (Some pv) = ''object'' \<Longrightarrow> Object_entries pv = Some es \<Longrightarrow> truthy (Some pv)"
  by (cases pv) simp_all

lemma parseResponse_try_success:
  assumes "parseResponse_try rt text = Inr fc"
  shows "\<exists>parsed n ps.
           JSON_parse rt text = Inr parsed \<and>
           getProperty rt parsed ''name'' = Inr (Some (JString n)) \<and> n \<noteq> [] \<and>
           name fc = n \<and> parameters fc = Some ps \<and>
           (\<forall>k t. ps k = Some t \<longrightarrow>
              (\<exists>pv es v. getProperty rt parsed ''parameters'' = Inr (Some pv) \<and>
                 Object_entries pv = Some es \<and> (k, v) \<in> set es \<and> js_String rt v = Inr t)) \<and>
           (\<forall>pv es k v. getProperty rt parsed ''parameters'' = Inr (Some pv) \<and>
              typeof (Some pv) = ''object'' \<and> Object_entries pv = Some es \<and>
              (k, v) \<in> set es \<and> k \<noteq> ''__proto__'' \<longrightarrow> ps k \<noteq> None)"
proof -
  from assms obtain parsed where parsed: "JSON_parse rt text = Inr parsed"
    by (cases "JSON_parse rt text") (simp_all add: parseResponse_try_def)
  from assms parsed obtain v where v: "getProperty rt parsed ''name'' = Inr v"
    by (cases "getProperty rt parsed ''name''") (simp_all add: parseResponse_try_def)
  from assms parsed v have tv: "truthy v" and sv: "typeof v = ''string''"
    by (auto simp: parseResponse_try_def split: if_splits)
  then obtain n where n: "v = Some (JString n)" "n \<noteq> []" using string_name by blast
  from assms parsed v tv sv obtain pp where pp: "getProperty rt parsed ''parameters'' = Inr pp"
    by (cases "getProperty rt parsed ''parameters''") (simp_all add: parseResponse_try_def)
  define conv where "conv =
    (if truthy pp \<and> typeof pp = ''object''
     then (case Option.bind pp Object_entries of
             None \<Rightarrow> Inl (throwTypeError rt ConvertNullToObject)
           | Some es \<Rightarrow> convertEntries rt es Map.empty)
     else Inr Map.empty)"
  from assms parsed v tv sv pp n have r: "(case conv of Inl e \<Rightarrow> Inl e
      | Inr ps \<Rightarrow> Inr \<lparr>name = n, parameters = Some ps\<rparr>) = Inr fc"
    by (auto simp: parseResponse_try_def conv_def split: if_splits sum.splits option.splits)
  then obtain ps where ps: "conv = Inr ps" and fc: "fc = \<lparr>name = n, parameters = Some ps\<rparr>"
    by (cases conv) auto
  have from_entries: "\<exists>pv es v. getProperty rt parsed ''parameters'' = Inr (Some pv) \<and>
      Object_entries pv = Some es \<and> (k, v) \<in> set es \<and> js_String rt v = Inr t"
    if kt: "ps k = Some t" for k t
  proof (cases "truthy pp \<and> typeof pp = ''object''")
    case True
    then obtain pv where pv: "pp = Some pv" by (cases pp) auto
    with True ps obtain es where es: "Object_entries pv = Some es"
      and c: "convertEntries rt es Map.empty = Inr ps"
      by (cases "Object_entries pv") (simp_all add: conv_def)
    from convertEntries_values [OF c kt] obtain v where "(k, v) \<in> set es" "js_String rt v = Inr t"
      by auto
    with pp pv es show ?thesis by blast
  next
    case False
    with ps have "ps = Map.empty" by (simp add: conv_def)
    with kt show ?thesis by simp
  qed
  have every_entry: "ps k \<noteq> None"
    if h: "getProperty rt parsed ''parameters'' = Inr (Some pv)" "typeof (Some pv) = ''object''"
      "Object_entries pv = Some es" "(k, v) \<in> set es" "k \<noteq> ''__proto__''" for pv es k v
  proof -
    from h(1) pp have pv: "pp = Some pv" by simp
    from h(2,3) have "truthy (Some pv)" by (rule object_with_entries_truthy)
    with pv h(2,3) ps have "convertEntries rt es Map.empty = Inr ps" by (simp add: conv_def)
    then show ?thesis using h(4,5) by (rule convertEntries_all)
  qed
  from parsed v n fc from_entries every_entry show ?thesis by auto
qed

lemma parseResponse_success:
  assumes "parseResponse rt response = Inr fc"
  shows "\<exists>text. parseResponse_try rt text = Inr fc"
  using assms unfolding parseResponse_def Let_def
  by (auto split: if_splits sum.splits)

text \<open>
  Claim C3, as amended. \<^verbatim>\<open>parseResponse\<close> removes the end-of-turn markers, trims, and
  hands to \<^verbatim>\<open>JSON.parse\<close> the text from the first \<^verbatim>\<open>{\<close> to the last \<^verbatim>\<open>}\<close>. It
  fails with the error \<^verbatim>\<open>No JSON object found in response\<close> when the text has no
  \<^verbatim>\<open>{\<close> or no \<^verbatim>\<open>}\<close>, and with an error \<^verbatim>\<open>JSON parsing failed: ...\<close> when
  \<^verbatim>\<open>JSON.parse\<close> rejects the cut or when \<^verbatim>\<open>name\<close> is missing, not a string, or
  empty. In a call it returns, the name is the parsed name, every value of
  \<^verbatim>\<open>parameters\<close> is \<^verbatim>\<open>String(v)\<close> of a parsed value \<open>v\<close> under the same key, and
  every parsed key but \<^verbatim>\<open>__proto__\<close> is there.
\<close>

theorem parseResponse_contract:
  "(cleanResponse response = pre @ ''{'' @ mid @ ''}'' @ post \<and>
      CHR ''{'' \<notin> set pre \<and> CHR ''}'' \<notin> set post \<longrightarrow>
      parseResponse rt response = rethrow (parseResponse_try rt (''{'' @ mid @ ''}''))) \<and>
   (CHR ''{'' \<notin> set (cleanResponse response) \<or> CHR ''}'' \<notin> set (cleanResponse response) \<longrightarrow>
      parseResponse rt response = Inl (Error ''No JSON object found in response'')) \<and>
   (JSON_parse rt jsonText = Inl m \<longrightarrow>
      rethrow (parseResponse_try rt jsonText) = Inl (Error (''JSON parsing failed: '' @ m))) \<and>
   (JSON_parse rt jsonText = Inr parsed \<and> getProperty rt parsed ''name'' = Inr v \<and>
      (\<forall>n. v = Some (JString n) \<longrightarrow> n = []) \<longrightarrow>
      rethrow (parseResponse_try rt jsonText) =
        Inl (Error (''JSON parsing failed: '' @ message invalidName))) \<and>
   (parseResponse rt response = Inr fc \<longrightarrow>
      (\<exists>cut parsed n ps.
         JSON_parse rt cut = Inr parsed \<and>
         getProperty rt parsed ''name'' = Inr (Some (JString n)) \<and> n \<noteq> [] \<and>
         name fc = n \<and> parameters fc = Some ps \<and>
         (\<forall>k t. ps k = Some t \<longrightarrow>
            (\<exists>pv es v. getProperty rt parsed ''parameters'' = Inr (Some pv) \<and>
               Object_entries pv = Some es \<and> (k, v) \<in> set es \<and> js_String rt v = Inr t)) \<and>
         (\<forall>pv es k v. getProperty rt parsed ''parameters'' = Inr (Some pv) \<and>
            typeof (Some pv) = ''object'' \<and> Object_entries pv = Some es \<and>
            (k, v) \<in> set es \<and> k \<noteq> ''__proto__'' \<longrightarrow> ps k \<noteq> None)))"
proof (intro conjI impI)
  assume "cleanResponse response = pre @ ''{'' @ mid @ ''}'' @ post \<and>
      CHR ''{'' \<notin> set pre \<and> CHR ''}'' \<notin> set post"
  then show "parseResponse rt response = rethrow (parseResponse_try rt (''{'' @ mid @ ''}''))"
    using parseResponse_cut by blast
next
  assume "CHR ''{'' \<notin> set (cleanResponse response) \<or> CHR ''}'' \<notin> set (cleanResponse response)"
  then show "parseResponse rt response = Inl (Error ''No JSON object found in response'')"
    by (rule parseResponse_no_braces)
next
  assume "JSON_parse rt jsonText = Inl m"
  then show "rethrow (parseResponse_try rt jsonText) = Inl (Error (''JSON parsing failed: '' @ m))"
    by (simp add: parseResponse_try_syntax_error rethrow_def)
next
  assume "JSON_parse rt jsonText = Inr parsed \<and> getProperty rt parsed ''name'' = Inr v \<and>
      (\<forall>n. v = Some (JString n) \<longrightarrow> n = [])"
  then have "parseResponse_try rt jsonText = Inl invalidName"
    using parseResponse_try_invalid_name by blast
  then show "rethrow (parseResponse_try rt jsonText) =
        Inl (Error (''JSON parsing failed: '' @ message invalidName))"
    by (simp add: rethrow_def)
next
  assume "parseResponse rt response = Inr fc"
  then obtain cut where "parseResponse_try rt cut = Inr fc"
    using parseResponse_success by blast
  from parseResponse_try_success [OF this]
  show "\<exists>cut parsed n ps.
         JSON_parse rt cut = Inr parsed \<and>
         getProperty rt parsed ''name'' = Inr (Some (JString n)) \<and> n \<noteq> [] \<and>
         name fc = n \<and> parameters fc = Some ps \<and>
         (\<forall>k t. ps k = Some t \<longrightarrow>
            (\<exists>pv es v. getProperty rt parsed ''parameters'' = Inr (Some pv) \<and>
               Object_entries pv = Some es \<and> (k, v) \<in> set es \<and> js_String rt v = Inr t)) \<and>
         (\<forall>pv es k v. getProperty rt parsed ''parameters'' = Inr (Some pv) \<and>
            typeof (Some pv) = ''object'' \<and> Object_entries pv = Some es \<and>
            (k, v) \<in> set es \<and> k \<noteq> ''__proto__'' \<longrightarrow> ps k \<noteq> None)"
    by blast
qed

lemma cleanResponse_example1:
  \<open>cleanResponse ''Sure: {"name":"open_browser","parameters":{"url":"github.com","tab":2}} <end_of_turn>''
     = ''Sure: '' @ ''{'' @ ''"name":"open_browser","parameters":{"url":"github.com","tab":2}'' @ ''}'' @ []\<close>
  by (simp add: cleanResponse_def String_trim_def isWhiteSpace_def String_startsWith_def)

lemma cleanResponse_example2:
  \<open>cleanResponse ''{"parameters":{"url":"github.com"}}''
     = [] @ ''{'' @ ''"parameters":{"url":"github.com"}'' @ ''}'' @ []\<close>
  by (simp add: cleanResponse_def String_trim_def isWhiteSpace_def String_startsWith_def)

lemma cleanResponse_example3:
  \<open>cleanResponse ''{"name":"go_back"} {"name":"go_forward"}''
     = [] @ ''{'' @ ''"name":"go_back"} {"name":"go_forward"'' @ ''}'' @ []\<close>
  by (simp add: cleanResponse_def String_trim_def isWhiteSpace_def String_startsWith_def)

theorem parseResponse_contract_witness:
  \<open>parseResponse exampleRuntime
      ''Sure: {"name":"open_browser","parameters":{"url":"github.com","tab":2}} <end_of_turn>'' =
     Inr \<lparr>name = ''open_browser'', parameters = Some [''url'' \<mapsto> ''github.com'', ''tab'' \<mapsto> ''2'']\<rparr> \<and>
   parseResponse exampleRuntime ''go back'' = Inl (Error ''No JSON object found in response'') \<and>
   parseResponse exampleRuntime ''{"parameters":{"url":"github.com"}}'' =
     Inl (Error ''JSON parsing failed: Invalid function call: missing or invalid "name" field'')\<close>
proof -
  let ?r1 = \<open>''Sure: {"name":"open_browser","parameters":{"url":"github.com","tab":2}} <end_of_turn>''\<close>
  let ?r3 = \<open>''{"parameters":{"url":"github.com"}}''\<close>
  have \<open>parseResponse exampleRuntime ?r1 = rethrow (parseResponse_try exampleRuntime
      (''{'' @ ''"name":"open_browser","parameters":{"url":"github.com","tab":2}'' @ ''}''))\<close>
    using parseResponse_contract [where response = ?r1 and rt = exampleRuntime and pre = "''Sure: ''"
        and post = "[]"] cleanResponse_example1
    by simp
  then have 1: \<open>parseResponse exampleRuntime ?r1 =
     Inr \<lparr>name = ''open_browser'', parameters = Some [''url'' \<mapsto> ''github.com'', ''tab'' \<mapsto> ''2'']\<rparr>\<close>
    by (simp add: rethrow_def parseResponse_try_def exampleRuntime_def Object_set_def)
  have 2: "parseResponse exampleRuntime ''go back'' = Inl (Error ''No JSON object found in response'')"
    using parseResponse_contract [where response = "''go back''" and rt = exampleRuntime]
    by (simp add: cleanResponse_def String_trim_def isWhiteSpace_def String_startsWith_def)
  have \<open>parseResponse exampleRuntime ?r3 = rethrow (parseResponse_try exampleRuntime ?r3)\<close>
    using parseResponse_contract [where response = ?r3 and rt = exampleRuntime and pre = "[]"
        and post = "[]"] cleanResponse_example2
    by simp
  moreover have \<open>rethrow (parseResponse_try exampleRuntime ?r3) =
      Inl (Error (''JSON parsing failed: '' @ message invalidName))\<close>
    using parseResponse_contract [where jsonText = ?r3 and rt = exampleRuntime and v = None
        and parsed = \<open>JObject [(''parameters'', JObject [(''url'', JString ''github.com'')])]\<close>]
    by (simp add: exampleRuntime_def)
  ultimately have 3: \<open>parseResponse exampleRuntime ?r3 =
     Inl (Error ''JSON parsing failed: Invalid function call: missing or invalid "name" field'')\<close>
    by (simp add: invalidName_def)
  from 1 2 3 show ?thesis by simp
qed

text \<open>
  Claim C3 as stated fails: on two objects in a row the first balanced object is a call,
  but the cut runs to the last \<^verbatim>\<open>}\<close> and is the whole text, which is not JSON:
  \<^verbatim>\<open>parseResponse\<close> throws.
\<close>

theorem parseResponse_first_balanced_counterexample:
  \<open>firstBalancedObject ''{"name":"go_back"} {"name":"go_forward"}'' = Some ''{"name":"go_back"}'' \<and>
   String_substring ''{"name":"go_back"} {"name":"go_forward"}''
      (String_indexOf ''{"name":"go_back"} {"name":"go_forward"}'' CHR ''{'')
      (String_lastIndexOf ''{"name":"go_back"} {"name":"go_forward"}'' CHR ''}'' + 1) =
     ''{"name":"go_back"} {"name":"go_forward"}'' \<and>
   rethrow (parseResponse_try exampleRuntime ''{"name":"go_back"}'') =
     Inr \<lparr>name = ''go_back'', parameters = Some Map.empty\<rparr> \<and>
   parseResponse exampleRuntime ''{"name":"go_back"} {"name":"go_forward"}'' =
     Inl (Error ''JSON parsing failed: Unexpected non-whitespace character after JSON at position 19'')\<close>
proof -
  have 1: \<open>firstBalancedObject ''{"name":"go_back"} {"name":"go_forward"}'' = Some ''{"name":"go_back"}''\<close>
    by (simp add: firstBalancedObject_def)
  have 2: \<open>String_substring ''{"name":"go_back"} {"name":"go_forward"}''
      (String_indexOf ''{"name":"go_back"} {"name":"go_forward"}'' CHR ''{'')
      (String_lastIndexOf ''{"name":"go_back"} {"name":"go_forward"}'' CHR ''}'' + 1) =
     ''{"name":"go_back"} {"name":"go_forward"}''\<close>
    by (simp add: String_substring_def String_indexOf_def String_lastIndexOf_def Let_def)
  have 3: \<open>rethrow (parseResponse_try exampleRuntime ''{"name":"go_back"}'') =
     Inr \<lparr>name = ''go_back'', parameters = Some Map.empty\<rparr>\<close>
    by (simp add: rethrow_def parseResponse_try_def exampleRuntime_def)
  have \<open>parseResponse exampleRuntime ''{"name":"go_back"} {"name":"go_forward"}'' =
      rethrow (parseResponse_try exampleRuntime
        (''{'' @ ''"name":"go_back"} {"name":"go_forward"'' @ ''}''))\<close>
    using parseResponse_cut [OF cleanResponse_example3] by simp
  then have 4: \<open>parseResponse exampleRuntime ''{"name":"go_back"} {"name":"go_forward"}'' =
     Inl (Error ''JSON parsing failed: Unexpected non-whitespace character after JSON at position 19'')\<close>
    by (simp add: rethrow_def parseResponse_try_def exampleRuntime_def)
  from 1 2 3 4 show ?thesis by simp
qed

section \<open>The remote path\<close>

text \<open>
  Claim C1, as amended. When the remote call fails, \<^verbatim>\<open>parseCommandViaBackend\<close> (and the
  \<^verbatim>\<open>parseVoiceCommand\<close> of the first version of the service) rejects with the new error
  \<^verbatim>\<open>Backend server is not running\<close> if the answer has status 503, and resolves to the
  synthesized call \<^verbatim>\<open>{name: "search_web", parameters: {query: command}}\<close> on every other
  failure: no answer at all, or an answer with another status.
\<close>

theorem parseCommandViaBackend_on_failure:
  "(axiosPost w (API_URL w @ ''/parse-command'') command (Some 10000) = Rejected response_status \<longrightarrow>
      fst (parseCommandViaBackend w command) =
        (if response_status = Some 503 then Inl (Error ''Backend server is not running'')
         else Inr (searchFallback command))) \<and>
   (axiosPost w (API_URL w @ ''/parse-command'') command None = Rejected response_status \<longrightarrow>
      fst (parseVoiceCommand_v1 w command) =
        (if response_status = Some 503 then Inl (Error ''Backend server is not running'')
         else Inr (searchFallback command)))"
  by (simp add: parseCommandViaBackend_def parseVoiceCommand_v1_def searchFallback_def Let_def)

theorem parseCommandViaBackend_on_failure_witness:
  "axiosPost (exampleEnv (Rejected None) (Inr []))
     (API_URL (exampleEnv (Rejected None) (Inr [])) @ ''/parse-command'') ''open youtube''
     (Some 10000) = Rejected None \<and>
   fst (parseCommandViaBackend (exampleEnv (Rejected None) (Inr [])) ''open youtube'') =
     Inr (searchFallback ''open youtube'') \<and>
   fst (parseVoiceCommand_v1 (exampleEnv (Rejected (Some 500)) (Inr [])) ''open youtube'') =
     Inr (searchFallback ''open youtube'')"
  using parseCommandViaBackend_on_failure
    [of "exampleEnv (Rejected None) (Inr [])" "''open youtube''" None]
    parseCommandViaBackend_on_failure
    [of "exampleEnv (Rejected (Some 500)) (Inr [])" "''open youtube''" "Some 500"]
  by (simp add: exampleEnv_def)

text \<open>
  Claim C1 as stated fails: on a 503 the promise is rejected, and no call is synthesized.
\<close>

theorem parseCommandViaBackend_503_counterexample:
  "fst (parseCommandViaBackend (exampleEnv (Rejected (Some 503)) (Inr [])) ''open youtube'') =
     Inl (Error ''Backend server is not running'') \<and>
   fst (parseVoiceCommand_v1 (exampleEnv (Rejected (Some 503)) (Inr [])) ''open youtube'') =
     Inl (Error ''Backend server is not running'')"
  by (simp add: parseCommandViaBackend_def parseVoiceCommand_v1_def exampleEnv_def Let_def)

section \<open>The router\<close>

lemma parseCommandOnDevice_not_loaded:
  "\<not> isModelLoaded (fst (getFunctionGemmaEngine st)) \<Longrightarrow>
   parseCommandOnDevice w st command =
     (Inl (Error ''On-device model not loaded''), [], snd (getFunctionGemmaEngine st))"
  by (cases "getFunctionGemmaEngine st") (simp add: parseCommandOnDevice_def)

text \<open>
  Claim C4. In the mode \<^verbatim>\<open>ON_DEVICE\<close> with no model loaded, \<^verbatim>\<open>parseVoiceCommand\<close>
  rejects with the error \<^verbatim>\<open>On-device model not loaded\<close> and makes no call that leaves the
  process: the remote endpoint is not asked.
\<close>

theorem parseVoiceCommand_on_device_not_loaded:
  assumes "currentMode st = ON_DEVICE"
    and "\<not> isModelLoaded (fst (getFunctionGemmaEngine st))"
  shows "fst (parseVoiceCommand w st command) = Inl (Error ''On-device model not loaded'') \<and>
         fst (snd (parseVoiceCommand w st command)) = []"
  using assms by (simp add: parseVoiceCommand_def parseCommandOnDevice_not_loaded)

theorem parseVoiceCommand_on_device_not_loaded_witness:
  "currentMode (setInferenceMode ON_DEVICE initialState) = ON_DEVICE \<and>
   \<not> isModelLoaded (fst (getFunctionGemmaEngine (setInferenceMode ON_DEVICE initialState))) \<and>
   fst (parseVoiceCommand (exampleEnv (Resolved (searchFallback ''open youtube'')) (Inr []))
          (setInferenceMode ON_DEVICE initialState) ''open youtube'') =
     Inl (Error ''On-device model not loaded'') \<and>
   fst (snd (parseVoiceCommand (exampleEnv (Resolved (searchFallback ''open youtube'')) (Inr []))
          (setInferenceMode ON_DEVICE initialState) ''open youtube'')) = []"
  using parseVoiceCommand_on_device_not_loaded
    [of "setInferenceMode ON_DEVICE initialState"
        "exampleEnv (Resolved (searchFallback ''open youtube'')) (Inr [])" "''open youtube''"]
  by (simp add: setInferenceMode_def initialState_def getFunctionGemmaEngine_def
      isModelLoaded_def newEngine_def)

lemma parseVoiceCommand_auto_local_failure:
  assumes "currentMode st = AUTO"
    and "fst (parseCommandOnDevice w st command) = Inl onDeviceError"
  shows "fst (parseVoiceCommand w st command) = fst (parseCommandViaBackend w command)"
proof -
  obtain r calls st1 where p: "parseCommandOnDevice w st command = (r, calls, st1)"
    by (cases "parseCommandOnDevice w st command") auto
  with assms(2) have "r = Inl onDeviceError" by simp
  with p assms(1) show ?thesis
    by (cases "parseCommandViaBackend w command") (simp add: parseVoiceCommand_def)
qed

lemma parseCommandViaBackend_result:
  "fst (parseCommandViaBackend w command) =
     (case axiosPost w (API_URL w @ ''/parse-command'') command (Some 10000) of
        Resolved response_data \<Rightarrow> Inr response_data
      | Rejected response_status \<Rightarrow>
          if response_status = Some 503 then Inl (Error ''Backend server is not running'')
          else Inr (searchFallback command))"
  by (simp add: parseCommandViaBackend_def searchFallback_def Let_def split: http_outcome.splits)

text \<open>
  Claim C2, as amended. In the mode \<^verbatim>\<open>AUTO\<close>, when the local interpretation throws,
  \<^verbatim>\<open>parseVoiceCommand\<close> settles as the remote path does: it resolves with the endpoint's
  answer, or with the synthesized \<^verbatim>\<open>search_web\<close> call on a failure other than a 503,
  and rejects with \<^verbatim>\<open>Backend server is not running\<close> on a 503. (The local
  interpretation is tried when the readiness flag is set; without the flag the remote
  path is taken at once.)
\<close>

theorem parseVoiceCommand_auto_fallback:
  assumes "currentMode st = AUTO"
    and "fst (parseCommandOnDevice w st command) = Inl onDeviceError"
  shows "fst (parseVoiceCommand w st command) = fst (parseCommandViaBackend w command) \<and>
         fst (parseVoiceCommand w st command) =
           (case axiosPost w (API_URL w @ ''/parse-command'') command (Some 10000) of
              Resolved response_data \<Rightarrow> Inr response_data
            | Rejected response_status \<Rightarrow>
                if response_status = Some 503 then Inl (Error ''Backend server is not running'')
                else Inr (searchFallback command))"
  using parseVoiceCommand_auto_local_failure [OF assms] parseCommandViaBackend_result [of w command]
  by simp

lemma loadedState_eq:
  "loadedState =
     \<lparr>currentMode = AUTO, onDeviceAvailable = True, autoInitAttempted = False,
      engineInstance = Some
        \<lparr>isLoaded = True, loadError = None,
         llamaContext = Some \<lparr>model = ''file:///data/functiongemma.gguf'', use_mlock = True,
            n_gpu_layers = 99, n_ctx = 2048, n_batch = 512, n_threads = 4\<rparr>\<rparr>\<rparr>"
  by (simp add: loadedState_def initializeOnDeviceInference_def getFunctionGemmaEngine_def
      initialState_def loadModel_def exampleEnv_def newEngine_def Let_def)

lemma parseCommandOnDevice_loadedState_throw:
  "fst (parseCommandOnDevice (exampleEnv answer (Inl (Error m))) loadedState command) =
     Inl (Error (''Inference failed: '' @ m))"
  by (simp add: loadedState_eq parseCommandOnDevice_def getFunctionGemmaEngine_def
      isModelLoaded_def parseCommand_def exampleEnv_def Let_def)

theorem parseVoiceCommand_auto_fallback_witness:
  "currentMode loadedState = AUTO \<and> onDeviceAvailable loadedState \<and>
   fst (parseCommandOnDevice
          (exampleEnv (Resolved \<lparr>name = ''go_back'', parameters = Some Map.empty\<rparr>)
             (Inl (Error ''Context is busy''))) loadedState ''go back'') =
     Inl (Error ''Inference failed: Context is busy'') \<and>
   fst (parseVoiceCommand (exampleEnv (Resolved \<lparr>name = ''go_back'', parameters = Some Map.empty\<rparr>)
          (Inl (Error ''Context is busy''))) loadedState ''go back'') =
     Inr \<lparr>name = ''go_back'', parameters = Some Map.empty\<rparr>"
proof -
  let ?w = "exampleEnv (Resolved \<lparr>name = ''go_back'', parameters = Some Map.empty\<rparr>)
              (Inl (Error ''Context is busy''))"
  have 1: "currentMode loadedState = AUTO" by (simp add: loadedState_eq)
  have 2: "onDeviceAvailable loadedState" by (simp add: loadedState_eq)
  have 3: "fst (parseCommandOnDevice ?w loadedState ''go back'') =
             Inl (Error (''Inference failed: '' @ ''Context is busy''))"
    by (rule parseCommandOnDevice_loadedState_throw)
  from parseVoiceCommand_auto_fallback [OF 1 3]
  have "fst (parseVoiceCommand ?w loadedState ''go back'') =
          (case axiosPost ?w (API_URL ?w @ ''/parse-command'') ''go back'' (Some 10000) of
              Resolved response_data \<Rightarrow> Inr response_data
            | Rejected response_status \<Rightarrow>
                if response_status = Some 503 then Inl (Error ''Backend server is not running'')
                else Inr (searchFallback ''go back''))"
    by (rule conjunct2)
  also have "\<dots> = Inr \<lparr>name = ''go_back'', parameters = Some Map.empty\<rparr>"
    by (simp add: exampleEnv_def)
  finally show ?thesis using 1 2 3 by simp
qed

text \<open>
  Claim C2 as stated fails: with the model loaded, a completion that throws and an
  endpoint that answers 503, \<^verbatim>\<open>parseVoiceCommand\<close> rejects.
\<close>

theorem parseVoiceCommand_auto_counterexample:
  "currentMode loadedState = AUTO \<and> onDeviceAvailable loadedState \<and>
   fst (parseCommandOnDevice (exampleEnv (Rejected (Some 503)) (Inl (Error ''Context is busy'')))
          loadedState ''open youtube'') = Inl (Error ''Inference failed: Context is busy'') \<and>
   fst (parseVoiceCommand (exampleEnv (Rejected (Some 503)) (Inl (Error ''Context is busy'')))
          loadedState ''open youtube'') = Inl (Error ''Backend server is not running'')"
proof -
  let ?w = "exampleEnv (Rejected (Some 503)) (Inl (Error ''Context is busy''))"
  have 1: "currentMode loadedState = AUTO" by (simp add: loadedState_eq)
  have 2: "onDeviceAvailable loadedState" by (simp add: loadedState_eq)
  have 3: "fst (parseCommandOnDevice ?w loadedState ''open youtube'') =
             Inl (Error (''Inference failed: '' @ ''Context is busy''))"
    by (rule parseCommandOnDevice_loadedState_throw)
  have "fst (parseVoiceCommand ?w loadedState ''open youtube'') =
          fst (parseCommandViaBackend ?w ''open youtube'')"
    using 1 3 by (rule parseVoiceCommand_auto_local_failure)
  also have "\<dots> = Inl (Error ''Backend server is not running'')"
    by (simp add: parseCommandViaBackend_result exampleEnv_def)
  finally show ?thesis using 1 2 3 by simp
qed

section \<open>The readiness flag\<close>

lemma getFunctionGemmaEngine_flag:
  "onDeviceAvailable (snd (getFunctionGemmaEngine st)) = onDeviceAvailable st"
  by (simp add: getFunctionGemmaEngine_def split: option.splits)

lemma parseCommandOnDevice_state:
  "snd (snd (parseCommandOnDevice w st command)) = snd (getFunctionGemmaEngine st)"
  by (cases "getFunctionGemmaEngine st")
     (simp add: parseCommandOnDevice_def split: prod.splits)

lemma parseVoiceCommand_flag:
  "onDeviceAvailable (snd (snd (parseVoiceCommand w st command))) = onDeviceAvailable st"
proof -
  obtain r calls st1 where p: "parseCommandOnDevice w st command = (r, calls, st1)"
    by (cases "parseCommandOnDevice w st command") auto
  then have "st1 = snd (getFunctionGemmaEngine st)"
    using parseCommandOnDevice_state [of w st command] by simp
  then have "onDeviceAvailable st1 = onDeviceAvailable st"
    by (simp add: getFunctionGemmaEngine_flag)
  with p show ?thesis
    by (cases "parseCommandViaBackend w command")
       (simp add: parseVoiceCommand_def split: InferenceMode.splits sum.splits)
qed

lemma initializeOnDeviceInference_flag:
  "onDeviceAvailable (snd (initializeOnDeviceInference w path st)) =
     (onDeviceAvailable st \<or> fst (initializeOnDeviceInference w path st))"
  using getFunctionGemmaEngine_flag [of st]
  by (cases "getFunctionGemmaEngine st")
     (simp add: initializeOnDeviceInference_def Let_def split: prod.splits)

lemma autoInitializeOnDevice_flag:
  "onDeviceAvailable (snd (autoInitializeOnDevice w st)) =
     (onDeviceAvailable st \<or> fst (autoInitializeOnDevice w st))"
  using getFunctionGemmaEngine_flag [of "st\<lparr>autoInitAttempted := True\<rparr>"]
  by (cases "getFunctionGemmaEngine (st\<lparr>autoInitAttempted := True\<rparr>)")
     (simp add: autoInitializeOnDevice_def Let_def split: prod.splits)

lemma step_flag: "onDeviceAvailable st \<Longrightarrow> onDeviceAvailable (step x st)"
proof (cases x)
  case (Pair w op)
  assume "onDeviceAvailable st"
  with Pair show ?thesis
    by (cases op)
       (simp_all add: autoInitializeOnDevice_flag initializeOnDeviceInference_flag
          parseVoiceCommand_flag setInferenceMode_def releaseFunctionGemmaEngine_def
          split: option.splits)
qed

lemma run_flag: "onDeviceAvailable st \<Longrightarrow> onDeviceAvailable (run ops st)"
  unfolding run_def by (induction ops arbitrary: st) (simp_all add: step_flag)

lemma run_append: "run (ops @ ops') st = run ops' (run ops st)"
  by (simp add: run_def)

lemma initializeOnDeviceInference_result:
  "fst (initializeOnDeviceInference w path st) =
     fst (loadModel w path None (fst (getFunctionGemmaEngine st)))"
  by (cases "getFunctionGemmaEngine st")
     (simp add: initializeOnDeviceInference_def Let_def split: prod.splits)

lemma autoInitializeOnDevice_result:
  "\<not> autoInitAttempted st \<Longrightarrow>
   fst (autoInitializeOnDevice w st) =
     fst (tryLoadBundledModel w (fst (getFunctionGemmaEngine st)))"
  by (auto simp: autoInitializeOnDevice_def getFunctionGemmaEngine_def Let_def
      split: prod.splits option.splits)

text \<open>
  Claim C7. The readiness flag is monotone: once a run of operations of the two modules
  (automatic and explicit initialisation, mode change, interpretation, release of the
  engine; each failing or not) has reached a state with the flag set, every
  continuation of the run keeps it set; and a model load that succeeds, explicit or
  automatic, sets it.
\<close>

theorem onDeviceAvailable_sticky:
  "(onDeviceAvailable (run ops st) \<longrightarrow> onDeviceAvailable (run (ops @ ops') st)) \<and>
   (fst (loadModel w path None (fst (getFunctionGemmaEngine st))) \<longrightarrow>
      fst (initializeOnDeviceInference w path st) \<and>
      onDeviceAvailable (snd (initializeOnDeviceInference w path st))) \<and>
   (\<not> autoInitAttempted st \<and> fst (tryLoadBundledModel w (fst (getFunctionGemmaEngine st))) \<longrightarrow>
      fst (autoInitializeOnDevice w st) \<and>
      onDeviceAvailable (snd (autoInitializeOnDevice w st)))"
  by (simp add: run_append run_flag initializeOnDeviceInference_flag autoInitializeOnDevice_flag
      initializeOnDeviceInference_result autoInitializeOnDevice_result)

lemma run_example_load:
  "run [(exampleEnv (Rejected None) (Inr []),
         InitializeOnDeviceInference ''file:///data/functiongemma.gguf'')] initialState = loadedState"
  by (simp add: run_def loadedState_def)

theorem onDeviceAvailable_sticky_witness:
  "\<not> onDeviceAvailable initialState \<and>
   onDeviceAvailable
     (run [(exampleEnv (Rejected None) (Inr []),
            InitializeOnDeviceInference ''file:///data/functiongemma.gguf'')] initialState) \<and>
   onDeviceAvailable
     (run ([(exampleEnv (Rejected None) (Inr []),
             InitializeOnDeviceInference ''file:///data/functiongemma.gguf'')] @
           [((exampleEnv (Rejected None) (Inr []))\<lparr>platformOS := Web\<rparr>,
             InitializeOnDeviceInference ''file:///data/other.gguf''),
            (exampleEnv (Rejected None) (Inr []), ReleaseFunctionGemmaEngine),
            (exampleEnv (Rejected None) (Inr []), SetInferenceMode ON_DEVICE),
            (exampleEnv (Rejected None) (Inr []), ParseVoiceCommand ''go back''),
            ((exampleEnv (Rejected None) (Inr []))\<lparr>platformOS := Web\<rparr>, AutoInitializeOnDevice)])
        initialState)"
proof -
  have 1: "\<not> onDeviceAvailable initialState" by (simp add: initialState_def)
  have 2: "onDeviceAvailable
     (run [(exampleEnv (Rejected None) (Inr []),
            InitializeOnDeviceInference ''file:///data/functiongemma.gguf'')] initialState)"
    by (simp add: run_def initializeOnDeviceInference_def getFunctionGemmaEngine_def
        initialState_def loadModel_def exampleEnv_def newEngine_def Let_def)
  from 1 2 onDeviceAvailable_sticky show ?thesis by blast
qed

end
